theory Spec2Isabelle
  imports Complex_Main
begin

section \<open>Python strings\<close>

text \<open>
  A Python \<^verbatim>\<open>str\<close> is modelled as a \<^typ>\<open>string\<close>: one \<^typ>\<open>char\<close> stands for one
  character of the text, so \<^verbatim>\<open>s[:100]\<close> is \<^term>\<open>take 100 s\<close> and the falsiness of a
  string is \<^term>\<open>s = []\<close>.
\<close>

text \<open>The characters \<^verbatim>\<open>str.strip()\<close> removes when it is called without an argument.\<close>

definition is_space :: "char \<Rightarrow> bool" where
  "is_space c = (c \<in> set [CHR '' '', CHR 0x09, CHR 0x0A, CHR 0x0B, CHR 0x0C, CHR 0x0D,
                            CHR 0x1C, CHR 0x1D, CHR 0x1E, CHR 0x1F, CHR 0x85, CHR 0xA0])"

definition strip :: "string \<Rightarrow> string" where
  "strip s = rev (dropWhile is_space (rev (dropWhile is_space s)))"

text \<open>\<^verbatim>\<open>s.split(sep)\<close> for a one-character separator; \<open>acc\<close> holds the current piece reversed.\<close>

fun split_acc :: "char \<Rightarrow> string \<Rightarrow> string \<Rightarrow> string list" where
  "split_acc sep acc [] = [rev acc]"
| "split_acc sep acc (c # cs) =
     (if c = sep then rev acc # split_acc sep [] cs else split_acc sep (c # acc) cs)"

definition split_lines :: "string \<Rightarrow> string list" where
  "split_lines s = split_acc (CHR 0x0A) [] s"

text \<open>
  \<^verbatim>\<open>s.replace(old, new)\<close>: every non-overlapping occurrence of \<open>old\<close>, scanning from
  the left. \<open>replace_from\<close> carries the number of characters of a matched occurrence
  that are still to be skipped. With an empty \<open>old\<close> Python puts \<open>new\<close> before every
  character and at the end.
\<close>

fun replace_from :: "string \<Rightarrow> string \<Rightarrow> nat \<Rightarrow> string \<Rightarrow> string" where
  "replace_from old new k [] = []"
| "replace_from old new (Suc k) (c # cs) = replace_from old new k cs"
| "replace_from old new 0 (c # cs) =
     (if take (length old) (c # cs) = old
      then new @ replace_from old new (length old - 1) cs
      else c # replace_from old new 0 cs)"

definition replace :: "string \<Rightarrow> string \<Rightarrow> string \<Rightarrow> string" where
  "replace old new s =
     (if old = [] then new @ concat (map (\<lambda>c. c # new) s) else replace_from old new 0 s)"

text \<open>\<^verbatim>\<open>str(n)\<close> for a non-negative integer, as an f-string prints a run index.\<close>

fun show_nat :: "nat \<Rightarrow> string" where
  "show_nat n =
     (if n < 10 then [''0123456789'' ! n]
      else show_nat (n div 10) @ [''0123456789'' ! (n mod 10)])"

section \<open>Configuration\<close>

record model_cfg =
  model_id :: string
  model_configs :: "(string \<times> string) list option"
  temperature :: real
  top_p :: real
  max_tokens :: int
  max_input_tokens :: int

text \<open>The module-level constants of \<^verbatim>\<open>run_with_hf.py\<close> (the entries that are not commented out).\<close>

definition MODELS :: "model_cfg list" where
  "MODELS =
     [\<lparr>model_id = ''claude-opus-4-5-20251101'',
       model_configs = Some [(''reasoning_effort'', ''high'')],
       temperature = 1, top_p = 9 / 10, max_tokens = 64000, max_input_tokens = 200000\<rparr>,
      \<lparr>model_id = ''gemini-3-pro-preview'',
       model_configs = Some [(''reasoning_effort'', ''high'')],
       temperature = 7 / 10, top_p = 9 / 10, max_tokens = 65535, max_input_tokens = 1048576\<rparr>]"

definition NUMBER_OF_RUNS :: nat where
  "NUMBER_OF_RUNS = 1"

text \<open>
  The functions below read \<^verbatim>\<open>MODELS\<close> and \<^verbatim>\<open>NUMBER_OF_RUNS\<close> as globals in the source;
  here they take them as the arguments \<open>ms\<close> and \<open>n\<close>, so that the theorems hold for every
  configuration the file can be edited to.
\<close>

section \<open>Header of the output file\<close>

definition sanitize :: "string \<Rightarrow> string" where
  "sanitize name = replace ''/'' ''_'' (replace ''.'' ''_'' (replace ''-'' ''_'' name))"

text \<open>\<^verbatim>\<open>f"{sanitize(model_id)}_{run}"\<close>\<close>

definition prefix_of :: "string \<Rightarrow> nat \<Rightarrow> string" where
  "prefix_of mid run = sanitize mid @ ''_'' @ show_nat run"

text \<open>\<^verbatim>\<open>range(1, n + 1)\<close>\<close>

definition runs :: "nat \<Rightarrow> nat list" where
  "runs n = [1 ..< Suc n]"

definition get_csv_headers :: "model_cfg list \<Rightarrow> nat \<Rightarrow> string list" where
  "get_csv_headers ms n =
     [''task_id'', ''domain'', ''status''] @
     concat (map (\<lambda>model.
       concat (map (\<lambda>run.
         [prefix_of (model_id model) run @ ''_response'',
          prefix_of (model_id model) run @ ''_score'',
          prefix_of (model_id model) run @ ''_score_summary'']) (runs n))) ms)"

section \<open>JSON values and Python dictionaries\<close>

text \<open>
  What \<^verbatim>\<open>json.loads\<close> returns: \<^verbatim>\<open>None\<close>, a bool, an int, a str, a list or a dict with
  string keys. A dict keeps its keys in insertion order, so it is an association list.
  Numbers with a fraction or an exponent (Python floats) are left out of the model.
\<close>

datatype json =
    JNull
  | JBool bool
  | JInt int
  | JStr string
  | JArr "json list"
  | JObj "(string \<times> json) list"

text \<open>\<^verbatim>\<open>d[k] = v\<close>: an existing key keeps its place, a new key goes to the end.\<close>

fun dict_set :: "string \<Rightarrow> 'v \<Rightarrow> (string \<times> 'v) list \<Rightarrow> (string \<times> 'v) list" where
  "dict_set k v [] = [(k, v)]"
| "dict_set k v ((k', v') # kvs) =
     (if k' = k then (k, v) # kvs else (k', v') # dict_set k v kvs)"

text \<open>\<^verbatim>\<open>bool(x)\<close>\<close>

fun truthy :: "json \<Rightarrow> bool" where
  "truthy JNull = False"
| "truthy (JBool b) = b"
| "truthy (JInt i) = (i \<noteq> 0)"
| "truthy (JStr s) = (s \<noteq> [])"
| "truthy (JArr xs) = (xs \<noteq> [])"
| "truthy (JObj kvs) = (kvs \<noteq> [])"

text \<open>\<^verbatim>\<open>type(data).__name__\<close>\<close>

fun type_name :: "json \<Rightarrow> string" where
  "type_name JNull = ''NoneType''"
| "type_name (JBool b) = ''bool''"
| "type_name (JInt i) = ''int''"
| "type_name (JStr s) = ''str''"
| "type_name (JArr xs) = ''list''"
| "type_name (JObj kvs) = ''dict''"

section \<open>The collaborators and the environment\<close>

record attachment =
  filename :: string
  url :: string

text \<open>The request \<^verbatim>\<open>run_generation\<close> builds: a \<^verbatim>\<open>GenerationTask\<close> with one \<^verbatim>\<open>ModelConfig\<close>.\<close>

record model_config =
  mc_model_id :: string
  mc_max_tokens :: int
  mc_temperature :: real
  mc_model_configs :: "(string \<times> string) list option"
  mc_number_of_runs :: int

record generation_task =
  gt_prompt :: string
  gt_models :: "model_config list"
  gt_attachments :: "attachment list option"

text \<open>
  What \<^verbatim>\<open>d.get(key)\<close> finds in a dict of the generation collaborator: no such key, the
  value \<^verbatim>\<open>None\<close>, or a text.
\<close>

datatype 'a field = Missing | Null | Val 'a

text \<open>
  One entry of \<^verbatim>\<open>result.results\<close>. \<open>res_success\<close> is read for its truth value only:
  \<open>None\<close> stands for a missing key and for the value \<^verbatim>\<open>None\<close>.
\<close>

record gen_result =
  res_success :: "bool option"
  res_response :: "string field"
  res_error_message :: "string field"

text \<open>The generation collaborator raises (with \<^verbatim>\<open>str(e)\<close>) or returns its results.\<close>

datatype gen_reply = GenRaised string | GenReturned "gen_result list"

text \<open>The request \<^verbatim>\<open>run_grading\<close> builds: a \<^verbatim>\<open>GradingTask\<close>.\<close>

record grading_model_config =
  gm_model_id :: string
  gm_max_tokens :: int
  gm_temperature :: real

record grading_task =
  solution :: string
  rubric :: string
  grading_model :: grading_model_config

text \<open>
  One entry of \<^verbatim>\<open>result.criteria_results\<close>, read with \<^verbatim>\<open>.get\<close>. The verdict is any
  value (it goes through \<^verbatim>\<open>bool\<close>); the key and the reason are text.
\<close>

record criterion_result =
  criterion_key :: "string option"
  autorating :: "json option"
  reason :: "string option"

text \<open>
  The grading collaborator raises (with \<^verbatim>\<open>str(e)\<close>) or returns
  \<^verbatim>\<open>criteria_results\<close> and \<^verbatim>\<open>percentage_score\<close>, a number or \<^verbatim>\<open>None\<close>.
\<close>

datatype grading_reply = GradingRaised string | GradingReturned "criterion_result list" "real option"

text \<open>
  Everything the script reads from outside itself. The first argument of the two
  collaborators numbers the (task, model, run) attempts of a run: two calls with equal
  requests may answer differently. \<open>json_loads\<close> is \<open>None\<close> where \<^verbatim>\<open>json.loads\<close> raises
  \<^verbatim>\<open>JSONDecodeError\<close>.
\<close>

record env =
  prompt_template :: string
  json_loads :: "string \<Rightarrow> json option"
  json_dumps :: "json \<Rightarrow> string"
  path_join :: "string \<Rightarrow> string \<Rightarrow> string"
  path_exists :: "string \<Rightarrow> bool"
  path_basename :: "string \<Rightarrow> string"
  path_abspath :: "string \<Rightarrow> string"
  run_generation_task_async :: "nat \<Rightarrow> generation_task \<Rightarrow> gen_reply"
  run_grading_task_async :: "nat \<Rightarrow> grading_task \<Rightarrow> grading_reply"

definition GRADING_MODEL :: string where
  "GRADING_MODEL = ''gemini-2.5-flash''"

definition GRADING_MAX_TOKENS :: int where
  "GRADING_MAX_TOKENS = 65535"

section \<open>Exceptions\<close>

text \<open>
  The exceptions \<^verbatim>\<open>run_grading\<close> raises, one constructor for each \<^verbatim>\<open>raise\<close> of the
  source (all of them \<^verbatim>\<open>ValueError\<close> there) and one for an exception of the collaborator:
  \<^item> \<open>EmptyResponse\<close>: "Empty model response for grading";
  \<^item> \<open>EmptyRubric\<close>: "Empty rubric JSON for grading";
  \<^item> \<open>RubricParseError\<close>: "Failed to parse rubric JSON: ...";
  \<^item> \<open>RubricNotObject t\<close>: "Rubric JSON is not an object; got t";
  \<^item> \<open>NoCriteriaResults\<close>: "Grading model returned no criteria results".
\<close>

datatype grading_error =
    EmptyResponse
  | EmptyRubric
  | RubricParseError
  | RubricNotObject string
  | NoCriteriaResults
  | CollaboratorRaised string

text \<open>The exceptions that reach the \<^verbatim>\<open>except\<close> of \<^verbatim>\<open>process_task\<close>, with their message.\<close>

datatype exn = AttributeError string | TypeError string

fun exn_str :: "exn \<Rightarrow> string" where
  "exn_str (AttributeError m) = m"
| "exn_str (TypeError m) = m"

text \<open>\<^verbatim>\<open>None.strip()\<close>\<close>

definition none_strip :: exn where
  "none_strip = AttributeError
     ([CHR 0x27] @ ''NoneType'' @ [CHR 0x27] @ '' object has no attribute '' @
      [CHR 0x27] @ ''strip'' @ [CHR 0x27])"

text \<open>\<^verbatim>\<open>s.replace(old, None)\<close>\<close>

definition replace_none :: exn where
  "replace_none = TypeError ''replace() argument 2 must be str, not None''"

text \<open>\<^verbatim>\<open>None[:100]\<close>\<close>

definition none_subscript :: exn where
  "none_subscript = TypeError
     ([CHR 0x27] @ ''NoneType'' @ [CHR 0x27] @ '' object is not subscriptable'')"

text \<open>\<^verbatim>\<open>f"{None:.1f}"\<close>\<close>

definition none_format :: exn where
  "none_format = TypeError ''unsupported format string passed to NoneType.__format__''"

section \<open>Attachments, prompt, rubric\<close>

definition create_attachments :: "env \<Rightarrow> string \<Rightarrow> string \<Rightarrow> attachment list" where
  "create_attachments E file_attachments_str base_dir =
     concat (map (\<lambda>rel_path.
       let rel = strip rel_path in
       if rel = [] then []
       else let full_path = path_join E base_dir rel in
         if path_exists E full_path
         then [\<lparr>filename = path_basename E full_path,
                url = ''file://'' @ path_abspath E full_path\<rparr>]
         else [])
       (split_lines (strip file_attachments_str)))"

text \<open>
  \<^verbatim>\<open>format_prompt\<close>; a field of the task that is \<^verbatim>\<open>None\<close> makes \<^verbatim>\<open>str.replace\<close> raise.
\<close>

definition format_prompt :: "env \<Rightarrow> string option \<Rightarrow> string option \<Rightarrow> exn + string" where
  "format_prompt E domain task_prompt =
     (case domain of
        None \<Rightarrow> Inl replace_none
      | Some d \<Rightarrow>
          (case task_prompt of
             None \<Rightarrow> Inl replace_none
           | Some p \<Rightarrow> Inr (replace ''{{Prompt}}'' p (replace ''{{Domain}}'' d (prompt_template E)))))"

definition parse_rubric :: "env \<Rightarrow> string \<Rightarrow> grading_error + (string \<times> json) list" where
  "parse_rubric E rubric_json =
     (if rubric_json = [] then Inl EmptyRubric
      else case json_loads E rubric_json of
             None \<Rightarrow> Inl RubricParseError
           | Some (JObj d) \<Rightarrow> Inr d
           | Some v \<Rightarrow> Inl (RubricNotObject (type_name v)))"

section \<open>Generation and grading\<close>

text \<open>
  The dict \<^verbatim>\<open>run_generation\<close> returns: \<open>response\<close> is \<open>None\<close> for the value \<^verbatim>\<open>None\<close>,
  \<open>error\<close> is \<open>Missing\<close> when the dict has no such key.
\<close>

record gen_outcome =
  success :: bool
  response :: "string option"
  error :: "string field"

definition run_generation :: "env \<Rightarrow> nat \<Rightarrow> string \<Rightarrow> model_cfg \<Rightarrow> attachment list \<Rightarrow> gen_outcome" where
  "run_generation E tick prompt model_cfg attachments =
     (let task = \<lparr>gt_prompt = prompt,
                  gt_models = [\<lparr>mc_model_id = model_id model_cfg,
                                mc_max_tokens = max_tokens model_cfg,
                                mc_temperature = temperature model_cfg,
                                mc_model_configs = model_configs model_cfg,
                                mc_number_of_runs = 1\<rparr>],
                  gt_attachments = (if attachments = [] then None else Some attachments)\<rparr>
      in case run_generation_task_async E tick task of
           GenRaised e \<Rightarrow> \<lparr>success = False, response = Some [], error = Val e\<rparr>
         | GenReturned results \<Rightarrow>
             (case results of
                [] \<Rightarrow> \<lparr>success = False, response = Some [], error = Val ''No results''\<rparr>
              | r # _ \<Rightarrow>
                  if res_success r = Some True
                  then \<lparr>success = True,
                        response = (case res_response r of
                                      Missing \<Rightarrow> Some [] | Null \<Rightarrow> None | Val t \<Rightarrow> Some t),
                        error = Missing\<rparr>
                  else \<lparr>success = False, response = Some [],
                        error = (case res_error_message r of
                                   Missing \<Rightarrow> Val ''Unknown'' | Null \<Rightarrow> Null | Val m \<Rightarrow> Val m)\<rparr>))"

text \<open>
  The body of the loop over \<^verbatim>\<open>result.criteria_results\<close>: the two assignments into
  \<^verbatim>\<open>rubric_dict[key]\<close>, guarded by \<^verbatim>\<open>key in rubric_dict and isinstance(rubric_dict[key], dict)\<close>.
\<close>

definition apply_result :: "(string \<times> json) list \<Rightarrow> criterion_result \<Rightarrow> (string \<times> json) list" where
  "apply_result rubric_dict cr =
     (case criterion_key cr of
        None \<Rightarrow> rubric_dict
      | Some key \<Rightarrow>
          (case map_of rubric_dict key of
             Some (JObj entry) \<Rightarrow>
               dict_set key
                 (JObj (dict_set ''reason''
                          (JStr (case reason cr of None \<Rightarrow> [] | Some t \<Rightarrow> t))
                          (dict_set ''autorating''
                             (JBool (case autorating cr of None \<Rightarrow> False | Some v \<Rightarrow> truthy v))
                             entry)))
                 rubric_dict
           | _ \<Rightarrow> rubric_dict))"

text \<open>The dict \<^verbatim>\<open>run_grading\<close> returns; the score is a number or \<^verbatim>\<open>None\<close>.\<close>

record grade =
  score :: "real option"
  score_summary :: string

definition run_grading :: "env \<Rightarrow> nat \<Rightarrow> string \<Rightarrow> string \<Rightarrow> grading_error + grade" where
  "run_grading E tick resp rubric_json =
     (if resp = [] then Inl EmptyResponse
      else case parse_rubric E rubric_json of
             Inl e \<Rightarrow> Inl e
           | Inr rubric_dict \<Rightarrow>
               (let config = \<lparr>gm_model_id = GRADING_MODEL, gm_max_tokens = GRADING_MAX_TOKENS,
                              gm_temperature = 1 / 10\<rparr>;
                    grading_task = \<lparr>solution = resp, rubric = rubric_json, grading_model = config\<rparr>
                in case run_grading_task_async E tick grading_task of
                     GradingRaised e \<Rightarrow> Inl (CollaboratorRaised e)
                   | GradingReturned criteria_results percentage_score \<Rightarrow>
                       if criteria_results = [] then Inl NoCriteriaResults
                       else Inr \<lparr>score = percentage_score,
                                 score_summary =
                                   json_dumps E (JObj (foldl apply_result rubric_dict criteria_results))\<rparr>))"

section \<open>One task\<close>

text \<open>A value of \<^verbatim>\<open>result_row\<close>: \<^verbatim>\<open>None\<close>, a str, the int \<^verbatim>\<open>0\<close> or a score.\<close>

datatype cell = CNone | CStr string | CInt int | CFloat real

type_synonym row = "string \<rightharpoonup> cell"

text \<open>
  A row of \<^verbatim>\<open>csv.DictReader\<close>: a column that the line is too short for has the value
  \<^verbatim>\<open>None\<close>, a column that the file does not have is not a key.
\<close>

type_synonym csv_record = "string \<rightharpoonup> string option"

text \<open>\<^verbatim>\<open>task_data.get(key, default)\<close>; the result \<open>None\<close> is Python's \<^verbatim>\<open>None\<close>.\<close>

definition get_field :: "csv_record \<Rightarrow> string \<Rightarrow> string \<Rightarrow> string option" where
  "get_field task_data key dflt = (case task_data key of None \<Rightarrow> Some dflt | Some v \<Rightarrow> v)"

definition cell_of :: "string option \<Rightarrow> cell" where
  "cell_of v = (case v of None \<Rightarrow> CNone | Some t \<Rightarrow> CStr t)"

definition score_cell :: "real option \<Rightarrow> cell" where
  "score_cell v = (case v of None \<Rightarrow> CNone | Some x \<Rightarrow> CFloat x)"

text \<open>
  The body of the inner \<^verbatim>\<open>for run in range(1, num_runs + 1)\<close> loop: the exception that
  leaves it, if any, and the row as it stands then. Two statements of the body can raise
  outside the inner \<^verbatim>\<open>try\<close>: the slice \<^verbatim>\<open>gen.get('error', '')[:100]\<close> when the error is
  \<^verbatim>\<open>None\<close>, after the score 0 was written, and the format \<^verbatim>\<open>{grade['score']:.1f}\<close> when
  the score is \<^verbatim>\<open>None\<close>, after the score and the summary were written.
\<close>

definition process_pair ::
  "env \<Rightarrow> string \<Rightarrow> string \<Rightarrow> attachment list \<Rightarrow> nat \<Rightarrow> model_cfg \<Rightarrow> nat \<Rightarrow> row \<Rightarrow>
   exn option \<times> row" where
  "process_pair E rubric_json formatted_prompt attachments tick model_cfg run result_row =
     (let pre = prefix_of (model_id model_cfg) run;
          gen = run_generation E tick formatted_prompt model_cfg attachments;
          row1 = result_row(pre @ ''_response'' \<mapsto> cell_of (response gen));
          skipped = row1(pre @ ''_score'' \<mapsto> CInt 0,
                         pre @ ''_score_summary'' \<mapsto> CStr ''No rubric or empty response'')
      in if \<not> success gen then
           (let row2 = row1(pre @ ''_score'' \<mapsto> CInt 0) in
            case error gen of
              Null \<Rightarrow> (Some none_subscript, row2)
            | Missing \<Rightarrow>
                (None, row2(pre @ ''_score_summary'' \<mapsto> CStr ''Generation failed: ''))
            | Val e \<Rightarrow>
                (None, row2(pre @ ''_score_summary'' \<mapsto>
                              CStr (''Generation failed: '' @ take 100 e))))
         else
           (case response gen of
              None \<Rightarrow> (None, skipped)
            | Some resp \<Rightarrow>
                if rubric_json \<noteq> [] \<and> resp \<noteq> [] then
                  (case run_grading E tick resp rubric_json of
                     Inl e \<Rightarrow> (None, row1)
                   | Inr g \<Rightarrow>
                       (let row2 = row1(pre @ ''_score'' \<mapsto> score_cell (score g),
                                        pre @ ''_score_summary'' \<mapsto> CStr (score_summary g)) in
                        case score g of
                          None \<Rightarrow> (Some none_format, row2)
                        | Some x \<Rightarrow> (None, row2)))
                else (None, skipped)))"

text \<open>The (model, run) pairs in the order of the two nested loops.\<close>

definition all_pairs :: "model_cfg list \<Rightarrow> nat \<Rightarrow> (model_cfg \<times> nat) list" where
  "all_pairs ms n = concat (map (\<lambda>model_cfg. map (\<lambda>run. (model_cfg, run)) (runs n)) ms)"

text \<open>
  The two loops; every attempt takes the next number, and an exception of a pair ends
  them.
\<close>

fun process_pairs ::
  "env \<Rightarrow> string \<Rightarrow> string \<Rightarrow> attachment list \<Rightarrow> (model_cfg \<times> nat) list \<Rightarrow> nat \<Rightarrow> row \<Rightarrow>
   exn option \<times> row \<times> nat" where
  "process_pairs E rubric_json formatted_prompt attachments [] tick result_row =
     (None, result_row, tick)"
| "process_pairs E rubric_json formatted_prompt attachments ((model_cfg, run) # ps) tick result_row =
     (case process_pair E rubric_json formatted_prompt attachments tick model_cfg run result_row of
        (Some e, row') \<Rightarrow> (Some e, row', Suc tick)
      | (None, row') \<Rightarrow>
          process_pairs E rubric_json formatted_prompt attachments ps (Suc tick) row')"

text \<open>
  The three statements of the \<^verbatim>\<open>try\<close> before the loops: the attachments, the stripped
  rubric text and the formatted prompt. A field of the task that is \<^verbatim>\<open>None\<close> raises.
\<close>

definition task_inputs ::
  "env \<Rightarrow> csv_record \<Rightarrow> string \<Rightarrow> string option \<Rightarrow> string option \<Rightarrow>
   exn + (attachment list \<times> string \<times> string)" where
  "task_inputs E task_data base_dir domain task_prompt =
     (case get_field task_data ''File Attachments'' [] of
        None \<Rightarrow> Inl none_strip
      | Some file_attachments_str \<Rightarrow>
          (let attachments = create_attachments E file_attachments_str base_dir in
           case get_field task_data ''Rubric JSON'' [] of
             None \<Rightarrow> Inl none_strip
           | Some r \<Rightarrow>
               (let rubric_json = strip r in
                case format_prompt E domain task_prompt of
                  Inl e \<Rightarrow> Inl e
                | Inr formatted_prompt \<Rightarrow> Inr (attachments, rubric_json, formatted_prompt))))"

text \<open>
  The body of the \<^verbatim>\<open>try\<close> of \<^verbatim>\<open>process_task\<close>: the exception that leaves it, if any, the
  row as it stands then, and the next attempt number.
\<close>

definition try_body ::
  "env \<Rightarrow> model_cfg list \<Rightarrow> nat \<Rightarrow> nat \<Rightarrow> csv_record \<Rightarrow> string \<Rightarrow> string option \<Rightarrow> string option \<Rightarrow>
   row \<Rightarrow> exn option \<times> row \<times> nat" where
  "try_body E ms n tick task_data base_dir domain task_prompt result_row =
     (case task_inputs E task_data base_dir domain task_prompt of
        Inl e \<Rightarrow> (Some e, result_row, tick)
      | Inr (attachments, rubric_json, formatted_prompt) \<Rightarrow>
          (case process_pairs E rubric_json formatted_prompt attachments
                  (all_pairs ms n) tick result_row of
             (Some e, row', tick') \<Rightarrow> (Some e, row', tick')
           | (None, row', tick') \<Rightarrow> (None, row'(''status'' \<mapsto> CStr ''completed''), tick')))"

definition process_task ::
  "env \<Rightarrow> model_cfg list \<Rightarrow> nat \<Rightarrow> nat \<Rightarrow> csv_record \<Rightarrow> string \<Rightarrow> row \<times> nat" where
  "process_task E ms n tick task_data base_dir =
     (let task_id = get_field task_data ''Task ID'' ''unknown'';
          domain = get_field task_data ''Domain'' [];
          task_prompt = get_field task_data ''Prompt'' [];
          result_row = [''task_id'' \<mapsto> cell_of task_id, ''domain'' \<mapsto> cell_of domain,
                        ''status'' \<mapsto> CStr ''pending'']
      in case try_body E ms n tick task_data base_dir domain task_prompt result_row of
           (None, row', tick') \<Rightarrow> (row', tick')
         | (Some e, row', tick') \<Rightarrow>
             (row'(''status'' \<mapsto> CStr (''error: '' @ take 100 (exn_str e))), tick'))"

section \<open>The run\<close>

text \<open>
  The output file as \<^verbatim>\<open>load_existing_results\<close> sees it: not there, there but raising
  when opened or read, or read by \<^verbatim>\<open>csv.DictReader\<close> into its rows.
\<close>

datatype store = Absent | Unreadable | Stored "csv_record list"

definition load_existing_results :: "store \<Rightarrow> (string \<rightharpoonup> csv_record)" where
  "load_existing_results output_file =
     (case output_file of
        Absent \<Rightarrow> Map.empty
      | Unreadable \<Rightarrow> Map.empty
      | Stored rows \<Rightarrow>
          foldl (\<lambda>d r. case r ''task_id'' of
                          Some (Some t) \<Rightarrow> if t \<noteq> [] then d(t \<mapsto> r) else d
                        | _ \<Rightarrow> d)
            Map.empty rows)"

text \<open>\<^verbatim>\<open>xs[a:b]\<close>: a negative index counts from the end, and both are clipped.\<close>

definition slice_index :: "int \<Rightarrow> nat \<Rightarrow> nat" where
  "slice_index i len = (if i < 0 then nat (max 0 (i + int len)) else min (nat i) len)"

definition py_slice :: "'a list \<Rightarrow> int \<Rightarrow> int \<Rightarrow> 'a list" where
  "py_slice xs a b =
     (let lo = slice_index a (length xs); hi = slice_index b (length xs)
      in take (hi - lo) (drop lo xs))"

record args =
  input_dir :: string
  start_index :: int
  limit :: "int option"
  resume :: bool

definition select_tasks :: "args \<Rightarrow> 'a list \<Rightarrow> 'a list" where
  "select_tasks a tasks =
     (let end_idx = (case limit a of
                       None \<Rightarrow> int (length tasks)
                     | Some l \<Rightarrow> min (start_index a + l) (int (length tasks)))
      in py_slice tasks (start_index a) end_idx)"

text \<open>
  \<^verbatim>\<open>csv.DictWriter(f, fieldnames=headers, extrasaction="ignore").writerow(result)\<close>: one
  cell for each header, the empty string where the row has no such key.
\<close>

definition write_row :: "string list \<Rightarrow> row \<Rightarrow> cell list" where
  "write_row headers result = map (\<lambda>h. case result h of None \<Rightarrow> CStr [] | Some c \<Rightarrow> c) headers"

text \<open>\<^verbatim>\<open>task_id in existing\<close>; the keys of \<open>existing\<close> are strings, so \<^verbatim>\<open>None\<close> is not one.\<close>

definition in_existing :: "string option \<Rightarrow> (string \<rightharpoonup> csv_record) \<Rightarrow> bool" where
  "in_existing task_id existing =
     (case task_id of None \<Rightarrow> False | Some t \<Rightarrow> existing t \<noteq> None)"

text \<open>
  The loop of \<^verbatim>\<open>main\<close> over the tasks: the rows it appends to the output file, in order.
\<close>

fun main_loop ::
  "env \<Rightarrow> model_cfg list \<Rightarrow> nat \<Rightarrow> bool \<Rightarrow> (string \<rightharpoonup> csv_record) \<Rightarrow> string \<Rightarrow> string list \<Rightarrow>
   csv_record list \<Rightarrow> nat \<Rightarrow> cell list list" where
  "main_loop E ms n res existing base_dir headers [] tick = []"
| "main_loop E ms n res existing base_dir headers (task_data # tasks) tick =
     (let task_id = get_field task_data ''Task ID'' ''unknown'' in
      if res \<and> in_existing task_id existing
      then main_loop E ms n res existing base_dir headers tasks tick
      else case process_task E ms n tick task_data base_dir of
             (result, tick') \<Rightarrow>
               write_row headers result #
               main_loop E ms n res existing base_dir headers tasks tick')"

text \<open>
  What a run does to the output file: whether it starts the file anew with the header
  line, and the rows it appends.
\<close>

record run_result =
  header_written :: bool
  appended :: "cell list list"

text \<open>
  \<^verbatim>\<open>main\<close>; \<open>input_csv\<close> is \<open>None\<close> when \<^verbatim>\<open>data/train.csv\<close> does not exist, and the result
  is \<open>None\<close> for \<^verbatim>\<open>sys.exit(1)\<close>.
\<close>

definition main ::
  "env \<Rightarrow> model_cfg list \<Rightarrow> nat \<Rightarrow> args \<Rightarrow> store \<Rightarrow> csv_record list option \<Rightarrow> run_result option" where
  "main E ms n a output_file input_csv =
     (case input_csv of
        None \<Rightarrow> None
      | Some all_tasks \<Rightarrow>
          (let headers = get_csv_headers ms n;
               existing = (if resume a then load_existing_results output_file else Map.empty);
               tasks = select_tasks a all_tasks
           in Some \<lparr>header_written = (\<not> resume a \<or> output_file = Absent),
                    appended = main_loop E ms n (resume a) existing (input_dir a) headers tasks 0\<rparr>))"

section \<open>A reader and a writer of JSON texts\<close>

text \<open>
  \<^verbatim>\<open>json.loads\<close> and \<^verbatim>\<open>json.dumps(..., ensure_ascii=False)\<close> belong to the Python
  library. The theorems on the header, on grading and on tasks hold for every
  environment; the examples and the round trip of the rubric are stated for the following
  reader and writer, which follow the library on the values of \<^typ>\<open>json\<close>: objects (a
  repeated key keeps its first place and takes its last value), arrays, strings with
  their escapes, integers, \<^verbatim>\<open>true\<close>, \<^verbatim>\<open>false\<close> and \<^verbatim>\<open>null\<close>, separated by \<^verbatim>\<open>", "\<close> and
  \<^verbatim>\<open>": "\<close> when written. The reader is \<open>None\<close> on a text that is not JSON and on a text
  outside the model: a number with a fraction or an exponent, \<^verbatim>\<open>NaN\<close>, \<^verbatim>\<open>Infinity\<close>, and
  an escape \<^verbatim>\<open>\u\<close> of a character beyond 255, the characters of \<^typ>\<open>string\<close> being the
  first 256. The recursion of the reader is bounded by the length of the text.
\<close>

definition is_ws :: "char \<Rightarrow> bool" where
  "is_ws c = (c = CHR '' '' \<or> c = CHR 0x09 \<or> c = CHR 0x0A \<or> c = CHR 0x0D)"

definition skip_ws :: "string \<Rightarrow> string" where
  "skip_ws s = dropWhile is_ws s"

definition is_digit :: "char \<Rightarrow> bool" where
  "is_digit c = (c \<in> set ''0123456789'')"

definition digit_val :: "char \<Rightarrow> nat" where
  "digit_val c = of_char c - 48"

definition hex_val :: "char \<Rightarrow> nat option" where
  "hex_val c =
     (let n = of_char c :: nat in
      if 48 \<le> n \<and> n \<le> 57 then Some (n - 48)
      else if 97 \<le> n \<and> n \<le> 102 then Some (n - 87)
      else if 65 \<le> n \<and> n \<le> 70 then Some (n - 55)
      else None)"

fun read_hex4 :: "string \<Rightarrow> (nat \<times> string) option" where
  "read_hex4 (a # b # c # d # r) =
     (case (hex_val a, hex_val b, hex_val c, hex_val d) of
        (Some x, Some y, Some z, Some w) \<Rightarrow> Some (((x * 16 + y) * 16 + z) * 16 + w, r)
      | _ \<Rightarrow> None)"
| "read_hex4 _ = None"

fun read_string :: "string \<Rightarrow> (string \<times> string) option" where
  "read_string [] = None"
| "read_string [c] = (if c = CHR 0x22 then Some ([], []) else None)"
| "read_string (c # d # cs) =
     (if c = CHR 0x22 then Some ([], d # cs)
      else if c = CHR 0x5C then
        (if d = CHR ''u'' then
           (case read_hex4 cs of
              None \<Rightarrow> None
            | Some (n, r) \<Rightarrow>
                if n < 256 then map_option (\<lambda>(t, r'). (char_of n # t, r')) (read_string (drop 4 cs))
                else None)
         else
           (case map_of [(CHR 0x22, CHR 0x22), (CHR 0x5C, CHR 0x5C), (CHR ''/'', CHR ''/''),
                         (CHR ''b'', CHR 0x08), (CHR ''f'', CHR 0x0C), (CHR ''n'', CHR 0x0A),
                         (CHR ''r'', CHR 0x0D), (CHR ''t'', CHR 0x09)] d of
              None \<Rightarrow> None
            | Some e \<Rightarrow> map_option (\<lambda>(t, r'). (e # t, r')) (read_string cs)))
      else if (of_char c :: nat) < 32 then None
      else map_option (\<lambda>(t, r'). (c # t, r')) (read_string (d # cs)))"

definition read_int :: "string \<Rightarrow> (int \<times> string) option" where
  "read_int s =
     (let neg = (s \<noteq> [] \<and> hd s = CHR ''-'');
          r = (if neg then tl s else s);
          ds = takeWhile is_digit r;
          rest = dropWhile is_digit r;
          m = foldl (\<lambda>a c. 10 * a + digit_val c) 0 ds
      in if ds = [] \<or> (1 < length ds \<and> hd ds = CHR ''0'') then None
         else if rest \<noteq> [] \<and> hd rest \<in> set ''.eE'' then None
         else Some (if neg then - int m else int m, rest))"

fun read_value :: "nat \<Rightarrow> string \<Rightarrow> (json \<times> string) option"
  and read_elems :: "nat \<Rightarrow> json list \<Rightarrow> string \<Rightarrow> (json \<times> string) option"
  and read_members :: "nat \<Rightarrow> (string \<times> json) list \<Rightarrow> string \<Rightarrow> (json \<times> string) option" where
  "read_value 0 s = None"
| "read_value (Suc f) s =
     (case skip_ws s of
        [] \<Rightarrow> None
      | c # r \<Rightarrow>
          if c = CHR ''{'' then
            (case skip_ws r of
               [] \<Rightarrow> None
             | c' # r' \<Rightarrow> if c' = CHR ''}'' then Some (JObj [], r') else read_members f [] (c' # r'))
          else if c = CHR ''['' then
            (case skip_ws r of
               [] \<Rightarrow> None
             | c' # r' \<Rightarrow> if c' = CHR '']'' then Some (JArr [], r') else read_elems f [] (c' # r'))
          else if c = CHR 0x22 then map_option (\<lambda>(t, r'). (JStr t, r')) (read_string r)
          else if take 4 (c # r) = ''true'' then Some (JBool True, drop 3 r)
          else if take 5 (c # r) = ''false'' then Some (JBool False, drop 4 r)
          else if take 4 (c # r) = ''null'' then Some (JNull, drop 3 r)
          else map_option (\<lambda>(i, r'). (JInt i, r')) (read_int (c # r)))"
| "read_elems 0 acc s = None"
| "read_elems (Suc f) acc s =
     (case read_value f s of
        None \<Rightarrow> None
      | Some (v, r) \<Rightarrow>
          (case skip_ws r of
             [] \<Rightarrow> None
           | c # r' \<Rightarrow>
               if c = CHR '','' then read_elems f (acc @ [v]) r'
               else if c = CHR '']'' then Some (JArr (acc @ [v]), r')
               else None))"
| "read_members 0 acc s = None"
| "read_members (Suc f) acc s =
     (case skip_ws s of
        [] \<Rightarrow> None
      | c # r \<Rightarrow>
          if c \<noteq> CHR 0x22 then None
          else
            (case read_string r of
               None \<Rightarrow> None
             | Some (k, r1) \<Rightarrow>
                 (case skip_ws r1 of
                    [] \<Rightarrow> None
                  | c1 # r2 \<Rightarrow>
                      if c1 \<noteq> CHR '':'' then None
                      else
                        (case read_value f r2 of
                           None \<Rightarrow> None
                         | Some (v, r3) \<Rightarrow>
                             (case skip_ws r3 of
                                [] \<Rightarrow> None
                              | c3 # r4 \<Rightarrow>
                                  if c3 = CHR '','' then read_members f (dict_set k v acc) r4
                                  else if c3 = CHR ''}'' then Some (JObj (dict_set k v acc), r4)
                                  else None)))))"

text \<open>\<^verbatim>\<open>json.loads\<close>\<close>

definition loads :: "string \<Rightarrow> json option" where
  "loads s =
     (case read_value (Suc (length s)) s of
        None \<Rightarrow> None
      | Some (v, r) \<Rightarrow> if skip_ws r = [] then Some v else None)"

definition show_int :: "int \<Rightarrow> string" where
  "show_int i = (if i < 0 then CHR ''-'' # show_nat (nat (- i)) else show_nat (nat i))"

definition escape_char :: "char \<Rightarrow> string" where
  "escape_char c =
     (if c = CHR 0x22 then [CHR 0x5C, CHR 0x22]
      else if c = CHR 0x5C then [CHR 0x5C, CHR 0x5C]
      else if c = CHR 0x0A then [CHR 0x5C, CHR ''n'']
      else if c = CHR 0x0D then [CHR 0x5C, CHR ''r'']
      else if c = CHR 0x09 then [CHR 0x5C, CHR ''t'']
      else if c = CHR 0x08 then [CHR 0x5C, CHR ''b'']
      else if c = CHR 0x0C then [CHR 0x5C, CHR ''f'']
      else if (of_char c :: nat) < 32
        then [CHR 0x5C, CHR ''u'', CHR ''0'', CHR ''0'',
              ''0123456789abcdef'' ! (of_char c div 16), ''0123456789abcdef'' ! (of_char c mod 16)]
      else [c])"

definition quote :: "string \<Rightarrow> string" where
  "quote s = CHR 0x22 # concat (map escape_char s) @ [CHR 0x22]"

fun join :: "string \<Rightarrow> string list \<Rightarrow> string" where
  "join sep [] = []"
| "join sep [x] = x"
| "join sep (x # y # ys) = x @ sep @ join sep (y # ys)"

text \<open>\<^verbatim>\<open>json.dumps\<close> with the default separators\<close>

fun dumps :: "json \<Rightarrow> string" where
  "dumps JNull = ''null''"
| "dumps (JBool b) = (if b then ''true'' else ''false'')"
| "dumps (JInt i) = show_int i"
| "dumps (JStr s) = quote s"
| "dumps (JArr xs) = ''['' @ join '', '' (map dumps xs) @ '']''"
| "dumps (JObj kvs) = ''{'' @ join '', '' (map (\<lambda>(k, v). quote k @ '': '' @ dumps v) kvs) @ ''}''"



definition value_start :: "string \<Rightarrow> bool" where
  "value_start s = (s \<noteq> [] \<and> \<not> is_ws (hd s) \<and> hd s \<notin> {CHR '']'', CHR ''}'', CHR '','', CHR '':''})"

text \<open>An environment for the examples, with the collaborators left open.\<close>

definition example_env ::
  "(nat \<Rightarrow> generation_task \<Rightarrow> gen_reply) \<Rightarrow> (nat \<Rightarrow> grading_task \<Rightarrow> grading_reply) \<Rightarrow> env" where
  "example_env gen gr =
     \<lparr>prompt_template = ''Domain: {{Domain}} Task: {{Prompt}}'',
      json_loads = loads, json_dumps = dumps,
      path_join = (\<lambda>a b. a @ ''/'' @ b), path_exists = (\<lambda>p. False),
      path_basename = (\<lambda>p. p), path_abspath = (\<lambda>p. p),
      run_generation_task_async = gen, run_grading_task_async = gr\<rparr>"

text \<open>Collaborators that cannot be reached.\<close>

definition offline_generation :: "nat \<Rightarrow> generation_task \<Rightarrow> gen_reply" where
  "offline_generation k t = GenRaised ''connection refused''"

definition offline_grading :: "nat \<Rightarrow> grading_task \<Rightarrow> grading_reply" where
  "offline_grading k t = GradingRaised ''connection refused''"

section \<open>Notions used in the statements\<close>


text \<open>The three keys a (model, run) pair writes into the row.\<close>

definition pair_keys :: "string \<Rightarrow> string set" where
  "pair_keys pre = {pre @ ''_response'', pre @ ''_score'', pre @ ''_score_summary''}"

text \<open>The key prefixes of a list of pairs, in order.\<close>

definition prefixes :: "(model_cfg \<times> nat) list \<Rightarrow> string list" where
  "prefixes ps = map (\<lambda>(m, r). prefix_of (model_id m) r) ps"

text \<open>
  The body of the loops raises at the attempt \<open>t\<close> for the model \<open>m\<close>: the generation
  failed with the error \<^verbatim>\<open>None\<close>, or the response was graded with the score \<^verbatim>\<open>None\<close>.
\<close>

definition pair_raises :: "env \<Rightarrow> string \<Rightarrow> string \<Rightarrow> attachment list \<Rightarrow> nat \<Rightarrow> model_cfg \<Rightarrow> bool" where
  "pair_raises E rj fp atts t m =
     (let gen = run_generation E t fp m atts in
      if \<not> success gen then error gen = Null
      else (case response gen of
              None \<Rightarrow> False
            | Some resp \<Rightarrow>
                rj \<noteq> [] \<and> resp \<noteq> [] \<and>
                (case run_grading E t resp rj of Inl e \<Rightarrow> False | Inr g \<Rightarrow> score g = None)))"

text \<open>
  No pair before position \<open>i\<close> raises, so that the loops reach the pair at position \<open>i\<close>;
  the attempts of a task are numbered from \<open>t0\<close>.
\<close>

definition reached ::
  "env \<Rightarrow> string \<Rightarrow> string \<Rightarrow> attachment list \<Rightarrow> nat \<Rightarrow> (model_cfg \<times> nat) list \<Rightarrow> nat \<Rightarrow> bool" where
  "reached E rj fp atts t0 ps i =
     list_all (\<lambda>j. \<not> pair_raises E rj fp atts (t0 + j) (fst (ps ! j))) [0..<i]"

text \<open>The row \<^verbatim>\<open>process_task\<close> starts from.\<close>

definition row0 :: "csv_record \<Rightarrow> row" where
  "row0 td = [''task_id'' \<mapsto> cell_of (get_field td ''Task ID'' ''unknown''),
              ''domain'' \<mapsto> cell_of (get_field td ''Domain'' []),
              ''status'' \<mapsto> CStr ''pending'']"

text \<open>The request \<^verbatim>\<open>run_grading\<close> sends for a response and a rubric text.\<close>

definition the_grading_task :: "string \<Rightarrow> string \<Rightarrow> grading_task" where
  "the_grading_task resp rubric_json =
     \<lparr>solution = resp, rubric = rubric_json,
      grading_model = \<lparr>gm_model_id = GRADING_MODEL, gm_max_tokens = GRADING_MAX_TOKENS,
                        gm_temperature = 1 / 10\<rparr>\<rparr>"

text \<open>
  The identifier of the task is the non-empty \<open>task_id\<close> of some row of the output file,
  whatever else the row holds.
\<close>

definition recorded_in_store :: "csv_record list \<Rightarrow> csv_record \<Rightarrow> bool" where
  "recorded_in_store rows task_data =
     (case get_field task_data ''Task ID'' ''unknown'' of
        None \<Rightarrow> False
      | Some t \<Rightarrow> t \<noteq> [] \<and> (\<exists>r \<in> set rows. r ''task_id'' = Some (Some t)))"

section \<open>Data of the examples\<close>

definition answer :: gen_result where
  "answer = \<lparr>res_success = Some True, res_response = Val ''ans'', res_error_message = Missing\<rparr>"

text \<open>The first attempt of the run meets a network error, the later ones answer.\<close>

definition flaky_generation :: "nat \<Rightarrow> generation_task \<Rightarrow> gen_reply" where
  "flaky_generation k t = (if k = 0 then GenRaised ''network error'' else GenReturned [answer])"

definition steady_generation :: "nat \<Rightarrow> generation_task \<Rightarrow> gen_reply" where
  "steady_generation k t = GenReturned [answer]"

text \<open>
  The first attempt of the run fails and the collaborator reports it with the error
  message \<^verbatim>\<open>None\<close>: \<^verbatim>\<open>[{"success": False, "error_message": None}]\<close>. The later
  attempts answer.
\<close>

definition silent_failure :: gen_result where
  "silent_failure = \<lparr>res_success = Some False, res_response = Missing, res_error_message = Null\<rparr>"

definition silent_generation :: "nat \<Rightarrow> generation_task \<Rightarrow> gen_reply" where
  "silent_generation k t = (if k = 0 then GenReturned [silent_failure] else GenReturned [answer])"

text \<open>A generation that answers with one space.\<close>

definition blank_generation :: "nat \<Rightarrow> generation_task \<Rightarrow> gen_reply" where
  "blank_generation k t =
     GenReturned [\<lparr>res_success = Some True, res_response = Val '' '', res_error_message = Missing\<rparr>]"

definition verdict_c1 :: criterion_result where
  "verdict_c1 = \<lparr>criterion_key = Some ''c1'', autorating = Some (JBool True), reason = Some ''ok''\<rparr>"

definition verdict_unknown :: criterion_result where
  "verdict_unknown = \<lparr>criterion_key = Some ''zz'', autorating = Some (JInt 1), reason = None\<rparr>"

definition pass_grading :: "nat \<Rightarrow> grading_task \<Rightarrow> grading_reply" where
  "pass_grading k t = GradingReturned [verdict_c1, verdict_unknown] (Some 100)"

definition rubric_c1 :: "(string \<times> json) list" where
  "rubric_c1 = [(''c1'', JObj [(''description'', JStr ''x'')]), (''note'', JStr ''draft'')]"

definition task_T1 :: csv_record where
  "task_T1 = [''Task ID'' \<mapsto> Some ''T1'', ''Domain'' \<mapsto> Some ''Law'', ''Prompt'' \<mapsto> Some ''p'',
              ''File Attachments'' \<mapsto> Some [],
              ''Rubric JSON'' \<mapsto> Some ''{\"c1\": {\"description\": \"x\"}}'']"

text \<open>A task whose file has no rubric column.\<close>

definition task_T2 :: csv_record where
  "task_T2 = [''Task ID'' \<mapsto> Some ''T2'', ''Domain'' \<mapsto> Some ''Law'', ''Prompt'' \<mapsto> Some ''p'',
              ''File Attachments'' \<mapsto> Some []]"

definition task_T4 :: csv_record where
  "task_T4 = [''Task ID'' \<mapsto> Some ''T4'', ''Domain'' \<mapsto> Some ''Law'', ''Prompt'' \<mapsto> Some ''p'',
              ''File Attachments'' \<mapsto> Some [], ''Rubric JSON'' \<mapsto> Some ''not json'']"

text \<open>A task read from a line that is too short for the rubric column.\<close>

definition task_T5 :: csv_record where
  "task_T5 = [''Task ID'' \<mapsto> Some ''T5'', ''Domain'' \<mapsto> Some ''Law'', ''Prompt'' \<mapsto> Some ''p'',
              ''File Attachments'' \<mapsto> Some [], ''Rubric JSON'' \<mapsto> None]"

definition fresh_args :: args where
  "fresh_args = \<lparr>input_dir = ''dir'', start_index = 0, limit = Some 5, resume = False\<rparr>"

definition resume_args :: args where
  "resume_args = \<lparr>input_dir = ''dir'', start_index = 0, limit = Some 5, resume = True\<rparr>"

text \<open>An output file whose only row ended in an error.\<close>

definition failed_row :: csv_record where
  "failed_row = [''task_id'' \<mapsto> Some ''T1'', ''domain'' \<mapsto> Some ''Law'',
                 ''status'' \<mapsto> Some ''error: boom'']"

section \<open>Properties of the header\<close>

lemma replace_from_char:
  "replace_from [a] [b] 0 s = map (\<lambda>c. if c = a then b else c) s"
  by (induction s) simp_all

lemma replace_char: "replace [a] [b] s = map (\<lambda>c. if c = a then b else c) s"
  by (simp add: replace_def replace_from_char)

lemma sanitize_map:
  "sanitize name =
     map (\<lambda>c. if c = CHR ''-'' \<or> c = CHR ''.'' \<or> c = CHR ''/'' then CHR ''_'' else c) name"
  by (simp add: sanitize_def replace_char)

lemma length_concat_block:
  "\<forall>x\<in>set xs. length (f x) = m \<Longrightarrow> length (concat (map f xs)) = length xs * m"
  by (induction xs) simp_all

lemma concat_nth_block:
  "\<forall>x\<in>set xs. length (f x) = m \<Longrightarrow> i < length xs \<Longrightarrow> j < m \<Longrightarrow>
   concat (map f xs) ! (i * m + j) = f (xs ! i) ! j"
proof (induction xs arbitrary: i)
  case Nil
  then show ?case by simp
next
  case (Cons x xs)
  show ?case
  proof (cases i)
    case 0
    with Cons.prems show ?thesis by (simp add: nth_append)
  next
    case (Suc i')
    have "concat (map f (x # xs)) ! (i * m + j) = concat (map f xs) ! (i' * m + j)"
      using Cons.prems Suc by (simp add: nth_append)
    also have "\<dots> = f (xs ! i') ! j"
      using Cons.prems Suc by (intro Cons.IH) simp_all
    finally show ?thesis using Suc by simp
  qed
qed

lemma runs_nth: "1 \<le> r \<Longrightarrow> r \<le> n \<Longrightarrow> runs n ! (r - Suc 0) = r"
  by (simp add: runs_def nth_upt del: upt_Suc)

lemma length_runs: "length (runs n) = n"
  by (simp add: runs_def del: upt_Suc)

lemma model_block_length:
  "length (concat (map (\<lambda>run. [prefix_of mid run @ ''_response'', prefix_of mid run @ ''_score'',
      prefix_of mid run @ ''_score_summary'']) (runs n))) = n * 3"
proof -
  have "length (concat (map (\<lambda>run. [prefix_of mid run @ ''_response'', prefix_of mid run @ ''_score'',
      prefix_of mid run @ ''_score_summary'']) (runs n))) = length (runs n) * 3"
    by (rule length_concat_block) simp
  then show ?thesis by (simp add: length_runs)
qed

lemma model_block_nth:
  assumes "1 \<le> r" "r \<le> n" "j < 3"
  shows "concat (map (\<lambda>run. [prefix_of mid run @ ''_response'', prefix_of mid run @ ''_score'',
      prefix_of mid run @ ''_score_summary'']) (runs n)) ! ((r - 1) * 3 + j)
    = [prefix_of mid r @ ''_response'', prefix_of mid r @ ''_score'',
      prefix_of mid r @ ''_score_summary''] ! j"
proof -
  have "r - 1 < length (runs n)" using assms by (simp add: length_runs)
  have "concat (map (\<lambda>run. [prefix_of mid run @ ''_response'', prefix_of mid run @ ''_score'',
      prefix_of mid run @ ''_score_summary'']) (runs n)) ! ((r - 1) * 3 + j)
    = (\<lambda>run. [prefix_of mid run @ ''_response'', prefix_of mid run @ ''_score'',
      prefix_of mid run @ ''_score_summary'']) (runs n ! (r - 1)) ! j"
    by (rule concat_nth_block) (use \<open>r - 1 < length (runs n)\<close> assms(3) in simp_all)
  then show ?thesis using assms by (simp add: runs_nth)
qed

lemma headers_length: "length (get_csv_headers ms n) = 3 + 3 * (length ms * n)"
proof -
  have "length (concat (map (\<lambda>model. concat (map (\<lambda>run.
         [prefix_of (model_id model) run @ ''_response'',
          prefix_of (model_id model) run @ ''_score'',
          prefix_of (model_id model) run @ ''_score_summary'']) (runs n))) ms)) = length ms * (n * 3)"
    by (rule length_concat_block) (simp add: model_block_length)
  then show ?thesis by (simp add: get_csv_headers_def)
qed

lemma headers_nth:
  assumes "i < length ms" "1 \<le> r" "r \<le> n" "j < 3"
  shows "get_csv_headers ms n ! (3 + 3 * (i * n + (r - 1)) + j)
    = [prefix_of (model_id (ms ! i)) r @ ''_response'', prefix_of (model_id (ms ! i)) r @ ''_score'',
      prefix_of (model_id (ms ! i)) r @ ''_score_summary''] ! j"
proof -
  let ?blk = "\<lambda>model. concat (map (\<lambda>run.
         [prefix_of (model_id model) run @ ''_response'',
          prefix_of (model_id model) run @ ''_score'',
          prefix_of (model_id model) run @ ''_score_summary'']) (runs n))"
  have lt: "(r - 1) * 3 + j < n * 3" using assms by simp
  have "concat (map ?blk ms) ! (i * (n * 3) + ((r - 1) * 3 + j)) = ?blk (ms ! i) ! ((r - 1) * 3 + j)"
    by (rule concat_nth_block) (use assms lt in \<open>simp_all add: model_block_length\<close>)
  also have "\<dots> = [prefix_of (model_id (ms ! i)) r @ ''_response'', prefix_of (model_id (ms ! i)) r @ ''_score'',
      prefix_of (model_id (ms ! i)) r @ ''_score_summary''] ! j"
    using assms(2-4) by (rule model_block_nth)
  finally have main: "concat (map ?blk ms) ! (i * (n * 3) + ((r - 1) * 3 + j)) = [prefix_of (model_id (ms ! i)) r @ ''_response'', prefix_of (model_id (ms ! i)) r @ ''_score'',
      prefix_of (model_id (ms ! i)) r @ ''_score_summary''] ! j" .
  have idx: "3 + 3 * (i * n + (r - 1)) + j = 3 + (i * (n * 3) + ((r - 1) * 3 + j))"
    by (simp add: algebra_simps)
  have "([''task_id'', ''domain'', ''status''] @ concat (map ?blk ms)) ! (3 + (i * (n * 3) + ((r - 1) * 3 + j)))
      = concat (map ?blk ms) ! (i * (n * 3) + ((r - 1) * 3 + j))"
    by (simp only: nth_append) simp
  with main show ?thesis
    unfolding get_csv_headers_def idx by (simp only:)
qed

lemma show_nat_1: "show_nat 1 = ''1''"
  by code_simp

text \<open>
  C9 (as amended). The header is \<open>task_id\<close>, \<open>domain\<close>, \<open>status\<close>, then for the model at
  position \<open>i\<close> of the list and the run \<open>r\<close> from 1 to \<open>n\<close>, at position
  \<open>3 + 3 * (i * n + (r - 1))\<close>, the three columns \<open>p_response\<close>, \<open>p_score\<close>,
  \<open>p_score_summary\<close> with \<open>p\<close> the sanitized model identifier, an underscore and the run
  in decimal. Sanitizing replaces each hyphen, dot and slash by an underscore and keeps
  every other character.
\<close>

theorem get_csv_headers_layout:
  "take 3 (get_csv_headers ms n) = [''task_id'', ''domain'', ''status''] \<and>
   length (get_csv_headers ms n) = 3 + 3 * (length ms * n) \<and>
   (\<forall>i r. i < length ms \<and> 1 \<le> r \<and> r \<le> n \<longrightarrow>
      get_csv_headers ms n ! (3 + 3 * (i * n + (r - 1))) =
        sanitize (model_id (ms ! i)) @ ''_'' @ show_nat r @ ''_response'' \<and>
      get_csv_headers ms n ! (3 + 3 * (i * n + (r - 1)) + 1) =
        sanitize (model_id (ms ! i)) @ ''_'' @ show_nat r @ ''_score'' \<and>
      get_csv_headers ms n ! (3 + 3 * (i * n + (r - 1)) + 2) =
        sanitize (model_id (ms ! i)) @ ''_'' @ show_nat r @ ''_score_summary'') \<and>
   sanitize name =
     map (\<lambda>c. if c = CHR ''-'' \<or> c = CHR ''.'' \<or> c = CHR ''/'' then CHR ''_'' else c) name"
proof (intro conjI allI impI)
  show "take 3 (get_csv_headers ms n) = [''task_id'', ''domain'', ''status'']"
    by (simp add: get_csv_headers_def)
  show "length (get_csv_headers ms n) = 3 + 3 * (length ms * n)"
    by (rule headers_length)
  show "sanitize name =
     map (\<lambda>c. if c = CHR ''-'' \<or> c = CHR ''.'' \<or> c = CHR ''/'' then CHR ''_'' else c) name"
    by (rule sanitize_map)
next
  fix i r
  assume h: "i < length ms \<and> 1 \<le> r \<and> r \<le> n"
  show "get_csv_headers ms n ! (3 + 3 * (i * n + (r - 1))) =
        sanitize (model_id (ms ! i)) @ ''_'' @ show_nat r @ ''_response''"
    using headers_nth [of i ms r n 0] h by (simp add: prefix_of_def)
  show "get_csv_headers ms n ! (3 + 3 * (i * n + (r - 1)) + 1) =
        sanitize (model_id (ms ! i)) @ ''_'' @ show_nat r @ ''_score''"
    using headers_nth [of i ms r n 1] h by (simp add: prefix_of_def)
  show "get_csv_headers ms n ! (3 + 3 * (i * n + (r - 1)) + 2) =
        sanitize (model_id (ms ! i)) @ ''_'' @ show_nat r @ ''_score_summary''"
    using headers_nth [of i ms r n 2] h by (simp add: prefix_of_def)
qed

theorem get_csv_headers_layout_witness:
  "length MODELS = 2 \<and> NUMBER_OF_RUNS = 1 \<and>
   length (get_csv_headers MODELS NUMBER_OF_RUNS) = 9 \<and>
   get_csv_headers MODELS NUMBER_OF_RUNS ! 6 = ''gemini_3_pro_preview_1_response'' \<and>
   get_csv_headers MODELS NUMBER_OF_RUNS ! 7 = ''gemini_3_pro_preview_1_score'' \<and>
   get_csv_headers MODELS NUMBER_OF_RUNS ! 8 = ''gemini_3_pro_preview_1_score_summary''"
proof -
  have len: "length MODELS = 2" and n: "NUMBER_OF_RUNS = 1"
    by (simp_all add: MODELS_def NUMBER_OF_RUNS_def)
  have san: "sanitize (model_id (MODELS ! Suc 0)) = ''gemini_3_pro_preview''"
    by (simp add: MODELS_def sanitize_map)
  from get_csv_headers_layout [of MODELS NUMBER_OF_RUNS]
  have "length (get_csv_headers MODELS NUMBER_OF_RUNS) = 3 + 3 * (length MODELS * NUMBER_OF_RUNS)"
    and "\<forall>i r. i < length MODELS \<and> 1 \<le> r \<and> r \<le> NUMBER_OF_RUNS \<longrightarrow>
      get_csv_headers MODELS NUMBER_OF_RUNS ! (3 + 3 * (i * NUMBER_OF_RUNS + (r - 1))) =
        sanitize (model_id (MODELS ! i)) @ ''_'' @ show_nat r @ ''_response'' \<and>
      get_csv_headers MODELS NUMBER_OF_RUNS ! (3 + 3 * (i * NUMBER_OF_RUNS + (r - 1)) + 1) =
        sanitize (model_id (MODELS ! i)) @ ''_'' @ show_nat r @ ''_score'' \<and>
      get_csv_headers MODELS NUMBER_OF_RUNS ! (3 + 3 * (i * NUMBER_OF_RUNS + (r - 1)) + 2) =
        sanitize (model_id (MODELS ! i)) @ ''_'' @ show_nat r @ ''_score_summary''"
    by blast+
  from this(1) this(2) [rule_format, of 1 1] show ?thesis
    by (simp add: len n san show_nat_1)
qed

text \<open>
  C9 as stated fails: a colon separates the parts of a model identifier as a slash does,
  it is not alphanumeric, and sanitizing keeps it.
\<close>

theorem sanitize_keeps_colon:
  "sanitize ''org/model:v1'' = ''org_model:v1'' \<and> CHR '':'' \<in> set (sanitize ''org/model:v1'')"
  by (simp add: sanitize_map)

section \<open>Grading\<close>

lemma map_of_dict_set: "map_of (dict_set k v d) = (map_of d)(k \<mapsto> v)"
  by (induction d) (auto simp: fun_eq_iff)

lemma keys_dict_set: "map_of d k \<noteq> None \<Longrightarrow> map fst (dict_set k v d) = map fst d"
  by (induction d) auto

lemma keys_apply_result: "map fst (apply_result d cr) = map fst d"
  by (auto simp: apply_result_def keys_dict_set split: option.splits json.splits)

lemma keys_foldl_apply_result: "map fst (foldl apply_result d crs) = map fst d"
  by (induction crs arbitrary: d) (simp_all add: keys_apply_result)

text \<open>
  C4. For one result of the grading collaborator: if its \<open>criterion_key\<close> is a key of
  the rubric whose value is a mapping, that criterion gets \<open>autorating\<close>, the boolean
  coercion of the verdict, and \<open>reason\<close>, the reason given or the empty string, and
  nothing else of the rubric changes; in every other case the rubric is unchanged. The
  keys of the rubric, in their order, are the same after one result and after all of them.
\<close>

theorem apply_result_effect:
  "(\<forall>k e. criterion_key cr = Some k \<and> map_of d k = Some (JObj e) \<longrightarrow>
      (\<exists>e'. map_of (apply_result d cr) = (map_of d)(k \<mapsto> JObj e') \<and>
            map_of e' = (map_of e)(''autorating'' \<mapsto> JBool (case autorating cr of None \<Rightarrow> False | Some v \<Rightarrow> truthy v),
                                   ''reason'' \<mapsto> JStr (case reason cr of None \<Rightarrow> [] | Some t \<Rightarrow> t)))) \<and>
   ((\<nexists>k e. criterion_key cr = Some k \<and> map_of d k = Some (JObj e)) \<longrightarrow> apply_result d cr = d) \<and>
   map fst (apply_result d cr) = map fst d \<and>
   map fst (foldl apply_result d crs) = map fst d"
proof (intro conjI allI impI)
  fix k e
  assume h: "criterion_key cr = Some k \<and> map_of d k = Some (JObj e)"
  let ?e' = "dict_set ''reason'' (JStr (case reason cr of None \<Rightarrow> [] | Some t \<Rightarrow> t))
               (dict_set ''autorating'' (JBool (case autorating cr of None \<Rightarrow> False | Some v \<Rightarrow> truthy v)) e)"
  have "apply_result d cr = dict_set k (JObj ?e') d"
    using h by (simp add: apply_result_def)
  then have "map_of (apply_result d cr) = (map_of d)(k \<mapsto> JObj ?e')"
    by (simp add: map_of_dict_set)
  moreover have "map_of ?e' = (map_of e)(''autorating'' \<mapsto> JBool (case autorating cr of None \<Rightarrow> False | Some v \<Rightarrow> truthy v),
                                   ''reason'' \<mapsto> JStr (case reason cr of None \<Rightarrow> [] | Some t \<Rightarrow> t))"
    by (simp add: map_of_dict_set)
  ultimately show "\<exists>e'. map_of (apply_result d cr) = (map_of d)(k \<mapsto> JObj e') \<and>
            map_of e' = (map_of e)(''autorating'' \<mapsto> JBool (case autorating cr of None \<Rightarrow> False | Some v \<Rightarrow> truthy v),
                                   ''reason'' \<mapsto> JStr (case reason cr of None \<Rightarrow> [] | Some t \<Rightarrow> t))"
    by blast
next
  assume "\<nexists>k e. criterion_key cr = Some k \<and> map_of d k = Some (JObj e)"
  then show "apply_result d cr = d"
    by (auto simp: apply_result_def split: option.splits json.splits)
next
  show "map fst (apply_result d cr) = map fst d" by (rule keys_apply_result)
  show "map fst (foldl apply_result d crs) = map fst d" by (rule keys_foldl_apply_result)
qed

theorem apply_result_effect_witness:
  "criterion_key verdict_c1 = Some ''c1'' \<and>
   map_of rubric_c1 ''c1'' = Some (JObj [(''description'', JStr ''x'')]) \<and>
   (\<exists>e'. map_of (apply_result rubric_c1 verdict_c1) = (map_of rubric_c1)(''c1'' \<mapsto> JObj e') \<and>
         map_of e' = (map_of [(''description'', JStr ''x'')])
                       (''autorating'' \<mapsto> JBool True, ''reason'' \<mapsto> JStr ''ok'')) \<and>
   apply_result rubric_c1 verdict_unknown = rubric_c1 \<and>
   map fst (foldl apply_result rubric_c1 [verdict_c1, verdict_unknown]) = [''c1'', ''note'']"
proof -
  have k: "criterion_key verdict_c1 = Some ''c1''"
    and v: "map_of rubric_c1 ''c1'' = Some (JObj [(''description'', JStr ''x'')])"
    by (simp_all add: verdict_c1_def rubric_c1_def)
  have u: "\<nexists>k e. criterion_key verdict_unknown = Some k \<and> map_of rubric_c1 k = Some (JObj e)"
    by (simp add: verdict_unknown_def rubric_c1_def)
  from apply_result_effect [of verdict_c1 rubric_c1 "[verdict_c1, verdict_unknown]"] k v
  have a: "\<exists>e'. map_of (apply_result rubric_c1 verdict_c1) = (map_of rubric_c1)(''c1'' \<mapsto> JObj e') \<and>
         map_of e' = (map_of [(''description'', JStr ''x'')])
                       (''autorating'' \<mapsto> JBool True, ''reason'' \<mapsto> JStr ''ok'')"
    and c: "map fst (foldl apply_result rubric_c1 [verdict_c1, verdict_unknown]) = map fst rubric_c1"
    by (simp_all add: verdict_c1_def)
  from apply_result_effect [of verdict_unknown rubric_c1 "[]"] u
  have b: "apply_result rubric_c1 verdict_unknown = rubric_c1" by blast
  from k v a b c show ?thesis by (simp add: rubric_c1_def)
qed

text \<open>
  C5 (as amended). \<open>parse_rubric\<close> raises exactly when the text is empty, when
  \<^verbatim>\<open>json.loads\<close> rejects it, or when the decoded value is not a mapping; otherwise it
  returns the whole decoded mapping, whatever its values are.
\<close>

theorem parse_rubric_fails_iff:
  "((\<exists>e. parse_rubric E t = Inl e) \<longleftrightarrow>
      (t = [] \<or> json_loads E t = None \<or> (\<exists>v. json_loads E t = Some v \<and> (\<forall>d. v \<noteq> JObj d)))) \<and>
   (parse_rubric E t = Inr d \<longleftrightarrow> (t \<noteq> [] \<and> json_loads E t = Some (JObj d)))"
  by (auto simp: parse_rubric_def split: option.splits json.splits)

theorem parse_rubric_fails_iff_witness:
  "(\<exists>e. parse_rubric (example_env offline_generation offline_grading) ''not json'' = Inl e) \<and>
   (\<exists>e. parse_rubric (example_env offline_generation offline_grading) ''[1, 2]'' = Inl e) \<and>
   (\<exists>e. parse_rubric (example_env offline_generation offline_grading) '' '' = Inl e) \<and>
   parse_rubric (example_env offline_generation offline_grading) ''{\"c1\": {\"description\": \"x\"}}''
     = Inr [(''c1'', JObj [(''description'', JStr ''x'')])]"
proof -
  let ?E = "example_env offline_generation offline_grading"
  have 1: "json_loads ?E ''not json'' = None" by code_simp
  have 2: "json_loads ?E ''[1, 2]'' = Some (JArr [JInt 1, JInt 2])" by code_simp
  have 3: "json_loads ?E '' '' = None" by code_simp
  have 4: "json_loads ?E ''{\"c1\": {\"description\": \"x\"}}''
           = Some (JObj [(''c1'', JObj [(''description'', JStr ''x'')])])" by code_simp
  show ?thesis
    using parse_rubric_fails_iff [of ?E "''not json''"] parse_rubric_fails_iff [of ?E "''[1, 2]''"]
      parse_rubric_fails_iff [of ?E "'' ''"]
      parse_rubric_fails_iff [of ?E "''{\"c1\": {\"description\": \"x\"}}''" "[(''c1'', JObj [(''description'', JStr ''x'')])]"]
      1 2 3 4
    by simp
qed

text \<open>
  C5 as stated fails: a mapping whose values are scalars is not a mapping of mappings,
  and it is decoded without an error.
\<close>

theorem parse_rubric_accepts_scalar_values:
  "parse_rubric (example_env offline_generation offline_grading) ''{\"a\": 1}''
   = Inr [(''a'', JInt 1)]"
  by code_simp

text \<open>
  C6 (as amended). \<open>run_grading\<close> raises in exactly four cases: the response is empty,
  the rubric text does not decode, the grading collaborator raises, or it returns no
  per-criterion result. Otherwise it returns the percentage of the collaborator as it is
  and the rubric, with the results applied, written back to text.
\<close>

theorem run_grading_raises_iff:
  "((\<exists>e. run_grading E k resp rj = Inl e) \<longleftrightarrow>
      (resp = [] \<or> (\<exists>e. parse_rubric E rj = Inl e) \<or>
       (\<exists>m. run_grading_task_async E k (the_grading_task resp rj) = GradingRaised m) \<or>
       (\<exists>p. run_grading_task_async E k (the_grading_task resp rj) = GradingReturned [] p))) \<and>
   (resp = [] \<longrightarrow> run_grading E k resp rj = Inl EmptyResponse) \<and>
   (\<forall>e. resp \<noteq> [] \<and> parse_rubric E rj = Inl e \<longrightarrow> run_grading E k resp rj = Inl e) \<and>
   (\<forall>d m. resp \<noteq> [] \<and> parse_rubric E rj = Inr d \<and>
      run_grading_task_async E k (the_grading_task resp rj) = GradingRaised m \<longrightarrow>
      run_grading E k resp rj = Inl (CollaboratorRaised m)) \<and>
   (\<forall>d p. resp \<noteq> [] \<and> parse_rubric E rj = Inr d \<and>
      run_grading_task_async E k (the_grading_task resp rj) = GradingReturned [] p \<longrightarrow>
      run_grading E k resp rj = Inl NoCriteriaResults) \<and>
   (\<forall>d crs p. resp \<noteq> [] \<and> parse_rubric E rj = Inr d \<and> crs \<noteq> [] \<and>
      run_grading_task_async E k (the_grading_task resp rj) = GradingReturned crs p \<longrightarrow>
      run_grading E k resp rj =
        Inr \<lparr>score = p, score_summary = json_dumps E (JObj (foldl apply_result d crs))\<rparr>)"
  by (auto simp: run_grading_def the_grading_task_def split: sum.splits grading_reply.splits)

theorem run_grading_raises_iff_witness:
  "run_grading (example_env steady_generation pass_grading) 0 ''ans'' ''{\"c1\": {\"description\": \"x\"}}''
     = Inr \<lparr>score = Some 100,
            score_summary = ''{\"c1\": {\"description\": \"x\", \"autorating\": true, \"reason\": \"ok\"}}''\<rparr> \<and>
   run_grading (example_env steady_generation pass_grading) 0 [] ''{\"c1\": {\"description\": \"x\"}}''
     = Inl EmptyResponse"
proof -
  let ?E = "example_env steady_generation pass_grading"
  let ?R = "''{\"c1\": {\"description\": \"x\"}}''"
  have p: "parse_rubric ?E ?R = Inr [(''c1'', JObj [(''description'', JStr ''x'')])]" by code_simp
  have g: "run_grading_task_async ?E 0 (the_grading_task ''ans'' ?R)
           = GradingReturned [verdict_c1, verdict_unknown] (Some 100)"
    by (simp add: example_env_def pass_grading_def)
  have d: "json_dumps ?E (JObj (foldl apply_result [(''c1'', JObj [(''description'', JStr ''x'')])]
              [verdict_c1, verdict_unknown]))
           = ''{\"c1\": {\"description\": \"x\", \"autorating\": true, \"reason\": \"ok\"}}''"
    by code_simp
  from run_grading_raises_iff [of ?E 0 "''ans''" ?R] p g
  have "run_grading ?E 0 ''ans'' ?R =
        Inr \<lparr>score = Some 100, score_summary = json_dumps ?E (JObj (foldl apply_result
          [(''c1'', JObj [(''description'', JStr ''x'')])] [verdict_c1, verdict_unknown]))\<rparr>"
    by simp
  moreover from run_grading_raises_iff [of ?E 0 "[]" ?R]
  have "run_grading ?E 0 [] ?R = Inl EmptyResponse" by simp
  ultimately show ?thesis by (simp only: d)
qed

text \<open>
  C6 as stated fails: with a response that is not empty and a rubric that decodes, the
  grading raises when the collaborator does, which is none of the three cases.
\<close>

theorem run_grading_collaborator_raises:
  "''ans'' \<noteq> [] \<and>
   parse_rubric (example_env steady_generation offline_grading) ''{\"c1\": {\"description\": \"x\"}}''
     = Inr [(''c1'', JObj [(''description'', JStr ''x'')])] \<and>
   run_grading_task_async (example_env steady_generation offline_grading) 0
       (the_grading_task ''ans'' ''{\"c1\": {\"description\": \"x\"}}'')
     = GradingRaised ''connection refused'' \<and>
   run_grading (example_env steady_generation offline_grading) 0 ''ans'' ''{\"c1\": {\"description\": \"x\"}}''
     = Inl (CollaboratorRaised ''connection refused'')"
  by code_simp

section \<open>One pair, one task\<close>

lemma suffix_cases:
  "p @ ''_response'' \<noteq> q @ ''_score''"
  "p @ ''_response'' \<noteq> q @ ''_score_summary''"
  "p @ ''_score'' \<noteq> q @ ''_response''"
  "p @ ''_score'' \<noteq> q @ ''_score_summary''"
  "p @ ''_score_summary'' \<noteq> q @ ''_response''"
  "p @ ''_score_summary'' \<noteq> q @ ''_score''"
proof -
  have r: "\<And>a b::string. rev a \<noteq> rev b \<Longrightarrow> a \<noteq> b" by auto
  show "p @ ''_response'' \<noteq> q @ ''_score''" by (rule r) simp
  show "p @ ''_response'' \<noteq> q @ ''_score_summary''" by (rule r) simp
  show "p @ ''_score'' \<noteq> q @ ''_response''" by (rule r) simp
  show "p @ ''_score'' \<noteq> q @ ''_score_summary''" by (rule r) simp
  show "p @ ''_score_summary'' \<noteq> q @ ''_response''" by (rule r) simp
  show "p @ ''_score_summary'' \<noteq> q @ ''_score''" by (rule r) simp
qed

lemma fixed_keys:
  "p @ ''_response'' \<noteq> ''task_id''" "p @ ''_response'' \<noteq> ''domain''" "p @ ''_response'' \<noteq> ''status''"
  "p @ ''_score'' \<noteq> ''task_id''" "p @ ''_score'' \<noteq> ''domain''" "p @ ''_score'' \<noteq> ''status''"
  "p @ ''_score_summary'' \<noteq> ''task_id''" "p @ ''_score_summary'' \<noteq> ''domain''"
  "p @ ''_score_summary'' \<noteq> ''status''"
proof -
  have r: "\<And>a b::string. rev a \<noteq> rev b \<Longrightarrow> a \<noteq> b" by auto
  show "p @ ''_response'' \<noteq> ''task_id''" by (rule r) simp
  show "p @ ''_response'' \<noteq> ''domain''" by (rule r) simp
  show "p @ ''_response'' \<noteq> ''status''" by (rule r) simp
  show "p @ ''_score'' \<noteq> ''task_id''" by (rule r) simp
  show "p @ ''_score'' \<noteq> ''domain''" by (rule r) simp
  show "p @ ''_score'' \<noteq> ''status''" by (rule r) simp
  show "p @ ''_score_summary'' \<noteq> ''task_id''" by (rule r) simp
  show "p @ ''_score_summary'' \<noteq> ''domain''" by (rule r) simp
  show "p @ ''_score_summary'' \<noteq> ''status''" by (rule r) simp
qed

lemma pair_keys_disjoint: "p \<noteq> q \<Longrightarrow> pair_keys p \<inter> pair_keys q = {}"
  using suffix_cases by (auto simp: pair_keys_def)

lemma fixed_not_pair_key:
  "''task_id'' \<notin> pair_keys p" "''domain'' \<notin> pair_keys p" "''status'' \<notin> pair_keys p"
  using fixed_keys [of p] by (auto simp: pair_keys_def)

text \<open>What one pair writes, as a map of its own.\<close>

lemma process_pair_add:
  "snd (process_pair E rj fp atts t m r row) = row ++ snd (process_pair E rj fp atts t m r Map.empty)"
  by (simp add: process_pair_def Let_def split: sum.splits field.splits option.splits)

lemma process_pair_raises:
  "fst (process_pair E rj fp atts t m r row) \<noteq> None \<longleftrightarrow> pair_raises E rj fp atts t m"
  by (auto simp: process_pair_def pair_raises_def Let_def
        split: sum.splits field.splits option.splits)

lemma process_pair_dom:
  "dom (snd (process_pair E rj fp atts t m r Map.empty)) \<subseteq> pair_keys (prefix_of (model_id m) r)"
  by (auto simp: process_pair_def Let_def pair_keys_def
        split: sum.splits if_splits field.splits option.splits)

lemma process_pair_other:
  "k \<notin> pair_keys (prefix_of (model_id m) r) \<Longrightarrow> snd (process_pair E rj fp atts t m r row) k = row k"
  using process_pair_dom [of E rj fp atts t m r]
  by (subst process_pair_add) (auto simp: map_add_def split: option.splits)

lemma process_pair_own:
  "k \<in> pair_keys (prefix_of (model_id m) r) \<Longrightarrow> row k = None \<Longrightarrow>
   snd (process_pair E rj fp atts t m r row) k = snd (process_pair E rj fp atts t m r Map.empty) k"
  by (subst process_pair_add) (auto simp: map_add_def split: option.splits)

lemma reached_iff:
  "reached E rj fp atts t0 ps i \<longleftrightarrow> (\<forall>j<i. \<not> pair_raises E rj fp atts (t0 + j) (fst (ps ! j)))"
  by (auto simp: reached_def list_all_iff)

lemma reached_Cons:
  "reached E rj fp atts t (a # ps) (Suc i) \<longleftrightarrow>
   \<not> pair_raises E rj fp atts t (fst a) \<and> reached E rj fp atts (Suc t) ps i"
proof -
  have "(\<forall>j<Suc i. \<not> pair_raises E rj fp atts (t + j) (fst ((a # ps) ! j))) \<longleftrightarrow>
        (\<not> pair_raises E rj fp atts t (fst a) \<and>
         (\<forall>j<i. \<not> pair_raises E rj fp atts (Suc t + j) (fst (ps ! j))))"
    by (auto simp: less_Suc_eq_0_disj)
  then show ?thesis by (simp only: reached_iff)
qed

lemma process_pairs_other:
  "\<forall>(m, r) \<in> set ps. k \<notin> pair_keys (prefix_of (model_id m) r) \<Longrightarrow>
   fst (snd (process_pairs E rj fp atts ps t row)) k = row k"
proof (induction ps arbitrary: t row)
  case Nil
  then show ?case by simp
next
  case (Cons a ps)
  obtain m r where a: "a = (m, r)" by (cases a)
  obtain x row' where p: "process_pair E rj fp atts t m r row = (x, row')"
    by (cases "process_pair E rj fp atts t m r row")
  from Cons.prems a have "k \<notin> pair_keys (prefix_of (model_id m) r)" by simp
  from process_pair_other [OF this, of E rj fp atts t row] p have r: "row' k = row k" by simp
  from Cons.prems have "\<forall>(m, r) \<in> set ps. k \<notin> pair_keys (prefix_of (model_id m) r)" by simp
  from Cons.IH [OF this, of "Suc t" row'] r
  show ?case using a p by (cases x) simp_all
qed

lemma process_pairs_nth:
  assumes "distinct (prefixes ps)" "i < length ps" "ps ! i = (m, r)"
    and "k \<in> pair_keys (prefix_of (model_id m) r)" "row k = None"
    and "reached E rj fp atts t ps i"
  shows "fst (snd (process_pairs E rj fp atts ps t row)) k
         = snd (process_pair E rj fp atts (t + i) m r Map.empty) k"
  using assms
proof (induction ps arbitrary: t row i)
  case Nil
  then show ?case by simp
next
  case (Cons a ps)
  obtain m' r' where a: "a = (m', r')" by (cases a)
  obtain x row' where p: "process_pair E rj fp atts t m' r' row = (x, row')"
    by (cases "process_pair E rj fp atts t m' r' row")
  show ?case
  proof (cases i)
    case 0
    with Cons.prems a have mr: "m' = m" "r' = r" by simp_all
    have others: "\<forall>(m'', r'') \<in> set ps. k \<notin> pair_keys (prefix_of (model_id m'') r'')"
    proof (clarify)
      fix m'' r'' assume in_ps: "(m'', r'') \<in> set ps"
        and kin: "k \<in> pair_keys (prefix_of (model_id m'') r'')"
      from Cons.prems(1) a mr in_ps
      have "prefix_of (model_id m'') r'' \<noteq> prefix_of (model_id m) r"
        by (force simp: prefixes_def)
      from pair_keys_disjoint [OF this] kin Cons.prems(4) show False by auto
    qed
    have own: "row' k = snd (process_pair E rj fp atts t m r Map.empty) k"
      using process_pair_own [where row = row and E = E and rj = rj and fp = fp and atts = atts
          and t = t, OF Cons.prems(4,5)] p mr by simp
    show ?thesis
    proof (cases x)
      case None
      have "fst (snd (process_pairs E rj fp atts ps (Suc t) row')) k = row' k"
        using others by (rule process_pairs_other)
      with own show ?thesis using 0 a p None by simp
    next
      case (Some e)
      with own show ?thesis using 0 a p by simp
    qed
  next
    case (Suc j)
    with Cons.prems have j: "j < length ps" "ps ! j = (m, r)" by simp_all
    have d: "distinct (prefixes ps)" using Cons.prems(1) by (simp add: prefixes_def)
    from Cons.prems(6) Suc a have nr: "\<not> pair_raises E rj fp atts t m'"
      and re: "reached E rj fp atts (Suc t) ps j"
      by (simp_all add: reached_Cons)
    from nr process_pair_raises [of E rj fp atts t m' r' row] p have x: "x = None" by simp
    have "(m, r) \<in> set ps" using j by (metis nth_mem)
    with Cons.prems(1) a have "prefix_of (model_id m') r' \<noteq> prefix_of (model_id m) r"
      by (force simp: prefixes_def)
    from pair_keys_disjoint [OF this] Cons.prems(4)
    have "k \<notin> pair_keys (prefix_of (model_id m') r')" by auto
    from process_pair_other [OF this, of E rj fp atts t row] p Cons.prems(5)
    have "row' k = None" by simp
    from Cons.IH [where row = row' and t = "Suc t" and i = j, OF d j Cons.prems(4) this re]
    show ?thesis using Suc a p x by simp
  qed
qed

lemma process_pairs_completes:
  "reached E rj fp atts t ps (length ps) \<Longrightarrow>
   fst (process_pairs E rj fp atts ps t row) = None \<and>
   snd (snd (process_pairs E rj fp atts ps t row)) = t + length ps"
proof (induction ps arbitrary: t row)
  case Nil
  then show ?case by simp
next
  case (Cons a ps)
  obtain m r where a: "a = (m, r)" by (cases a)
  obtain x row' where p: "process_pair E rj fp atts t m r row = (x, row')"
    by (cases "process_pair E rj fp atts t m r row")
  from Cons.prems a have nr: "\<not> pair_raises E rj fp atts t m"
    and re: "reached E rj fp atts (Suc t) ps (length ps)"
    by (simp_all add: reached_Cons)
  from nr process_pair_raises [of E rj fp atts t m r row] p have x: "x = None" by simp
  from Cons.IH [OF re, of row'] show ?case using a p x by simp
qed

lemma process_pairs_aborts:
  "\<not> reached E rj fp atts t ps (length ps) \<Longrightarrow>
   fst (process_pairs E rj fp atts ps t row) \<noteq> None"
proof (induction ps arbitrary: t row)
  case Nil
  then show ?case by (simp add: reached_iff)
next
  case (Cons a ps)
  obtain m r where a: "a = (m, r)" by (cases a)
  obtain x row' where p: "process_pair E rj fp atts t m r row = (x, row')"
    by (cases "process_pair E rj fp atts t m r row")
  show ?case
  proof (cases x)
    case None
    with process_pair_raises [of E rj fp atts t m r row] p
    have "\<not> pair_raises E rj fp atts t m" by simp
    with Cons.prems a have "\<not> reached E rj fp atts (Suc t) ps (length ps)"
      by (simp add: reached_Cons)
    from Cons.IH [OF this, of row'] show ?thesis using a p None by simp
  next
    case (Some e)
    then show ?thesis using a p by simp
  qed
qed

lemma pair_response:
  "snd (process_pair E rj fp atts t m r Map.empty) (prefix_of (model_id m) r @ ''_response'')
   = Some (cell_of (response (run_generation E t fp m atts)))"
  using suffix_cases [of "prefix_of (model_id m) r" "prefix_of (model_id m) r"]
  by (simp add: process_pair_def Let_def split: sum.splits field.splits option.splits)

lemma pair_gen_failed:
  assumes "\<not> success (run_generation E t fp m atts)"
  shows "snd (process_pair E rj fp atts t m r Map.empty) (prefix_of (model_id m) r @ ''_score'')
         = Some (CInt 0)"
    and "error (run_generation E t fp m atts) = Val e \<Longrightarrow>
         snd (process_pair E rj fp atts t m r Map.empty) (prefix_of (model_id m) r @ ''_score_summary'')
         = Some (CStr (''Generation failed: '' @ take 100 e))"
    and "error (run_generation E t fp m atts) = Null \<Longrightarrow>
         snd (process_pair E rj fp atts t m r Map.empty) (prefix_of (model_id m) r @ ''_score_summary'')
         = None"
  using assms suffix_cases [of "prefix_of (model_id m) r" "prefix_of (model_id m) r"]
  by (simp_all add: process_pair_def Let_def split: field.splits)

lemma pair_not_graded:
  assumes "success (run_generation E t fp m atts)"
    and "rj = [] \<or> response (run_generation E t fp m atts) = Some [] \<or>
         response (run_generation E t fp m atts) = None"
  shows "snd (process_pair E rj fp atts t m r Map.empty) (prefix_of (model_id m) r @ ''_score'')
         = Some (CInt 0)"
    and "snd (process_pair E rj fp atts t m r Map.empty) (prefix_of (model_id m) r @ ''_score_summary'')
         = Some (CStr ''No rubric or empty response'')"
  using assms suffix_cases [of "prefix_of (model_id m) r" "prefix_of (model_id m) r"]
  by (auto simp add: process_pair_def Let_def split: option.splits)

lemma pair_grading_raised:
  assumes "success (run_generation E t fp m atts)"
    and "rj \<noteq> []" "response (run_generation E t fp m atts) = Some resp" "resp \<noteq> []"
    and "run_grading E t resp rj = Inl e"
  shows "snd (process_pair E rj fp atts t m r Map.empty) (prefix_of (model_id m) r @ ''_score'') = None"
    and "snd (process_pair E rj fp atts t m r Map.empty) (prefix_of (model_id m) r @ ''_score_summary'')
         = None"
    and "\<not> pair_raises E rj fp atts t m"
  using assms suffix_cases [of "prefix_of (model_id m) r" "prefix_of (model_id m) r"]
  by (simp_all add: process_pair_def pair_raises_def Let_def)

lemma pair_graded:
  assumes "success (run_generation E t fp m atts)"
    and "rj \<noteq> []" "response (run_generation E t fp m atts) = Some resp" "resp \<noteq> []"
    and "run_grading E t resp rj = Inr g"
  shows "snd (process_pair E rj fp atts t m r Map.empty) (prefix_of (model_id m) r @ ''_score'')
         = Some (score_cell (score g))"
    and "snd (process_pair E rj fp atts t m r Map.empty) (prefix_of (model_id m) r @ ''_score_summary'')
         = Some (CStr (score_summary g))"
  using assms suffix_cases [of "prefix_of (model_id m) r" "prefix_of (model_id m) r"]
  by (simp_all add: process_pair_def Let_def split: option.splits)

lemma row0_pair_key: "k \<in> pair_keys p \<Longrightarrow> row0 td k = None"
  using fixed_not_pair_key [of p] by (auto simp: row0_def)

text \<open>The row of a task whose inputs could be read, away from the status.\<close>

lemma process_task_row:
  assumes "task_inputs E td bd (get_field td ''Domain'' []) (get_field td ''Prompt'' []) = Inr (atts, rj, fp)"
    and "k \<noteq> ''status''"
  shows "fst (process_task E ms n t0 td bd) k
         = fst (snd (process_pairs E rj fp atts (all_pairs ms n) t0 (row0 td))) k"
proof -
  obtain x row' tick' where pp:
    "process_pairs E rj fp atts (all_pairs ms n) t0 (row0 td) = (x, row', tick')"
    by (cases "process_pairs E rj fp atts (all_pairs ms n) t0 (row0 td)")
  show ?thesis
    using assms pp
    by (cases x) (simp_all add: process_task_def try_body_def Let_def row0_def [symmetric])
qed

lemma process_task_pair_key:
  assumes "task_inputs E td bd (get_field td ''Domain'' []) (get_field td ''Prompt'' []) = Inr (atts, rj, fp)"
    and "distinct (prefixes (all_pairs ms n))"
    and "i < length (all_pairs ms n)" "all_pairs ms n ! i = (m, r)"
    and "reached E rj fp atts t0 (all_pairs ms n) i"
    and "k \<in> pair_keys (prefix_of (model_id m) r)"
  shows "fst (process_task E ms n t0 td bd) k = snd (process_pair E rj fp atts (t0 + i) m r Map.empty) k"
proof -
  have ks: "k \<noteq> ''status''" using assms(6) fixed_not_pair_key(3) by auto
  have "fst (process_task E ms n t0 td bd) k
        = fst (snd (process_pairs E rj fp atts (all_pairs ms n) t0 (row0 td))) k"
    using assms(1) ks by (rule process_task_row)
  also have "\<dots> = snd (process_pair E rj fp atts (t0 + i) m r Map.empty) k"
    using assms(2-4) assms(6) row0_pair_key [OF assms(6)] assms(5) by (rule process_pairs_nth)
  finally show ?thesis .
qed

lemma process_task_completed:
  assumes "task_inputs E td bd (get_field td ''Domain'' []) (get_field td ''Prompt'' []) = Inr (atts, rj, fp)"
    and "reached E rj fp atts t0 (all_pairs ms n) (length (all_pairs ms n))"
  shows "fst (process_task E ms n t0 td bd) ''status'' = Some (CStr ''completed'')"
    and "snd (process_task E ms n t0 td bd) = t0 + length (all_pairs ms n)"
proof -
  obtain x row' tick' where pp:
    "process_pairs E rj fp atts (all_pairs ms n) t0 (row0 td) = (x, row', tick')"
    by (cases "process_pairs E rj fp atts (all_pairs ms n) t0 (row0 td)")
  from process_pairs_completes [OF assms(2), of "row0 td"] pp
  have x: "x = None" and t: "tick' = t0 + length (all_pairs ms n)" by simp_all
  show "fst (process_task E ms n t0 td bd) ''status'' = Some (CStr ''completed'')"
    using assms(1) pp x by (simp add: process_task_def try_body_def Let_def row0_def [symmetric])
  show "snd (process_task E ms n t0 td bd) = t0 + length (all_pairs ms n)"
    using assms(1) pp x t by (simp add: process_task_def try_body_def Let_def row0_def [symmetric])
qed

lemma try_body_inputs_raise:
  "task_inputs E td bd dm pr = Inl e \<Longrightarrow> fst (try_body E ms n t td bd dm pr row) = Some e"
  by (simp add: try_body_def)

lemma try_body_pairs_raise:
  "task_inputs E td bd dm pr = Inr (atts, rj, fp) \<Longrightarrow>
   fst (try_body E ms n t td bd dm pr row) = fst (process_pairs E rj fp atts (all_pairs ms n) t row)"
  by (simp add: try_body_def split: prod.splits option.splits)

lemma process_task_status_raised:
  assumes "fst (try_body E ms n t td bd (get_field td ''Domain'' []) (get_field td ''Prompt'' [])
             (row0 td)) = Some e"
  shows "fst (process_task E ms n t td bd) ''status'' = Some (CStr (''error: '' @ take 100 (exn_str e)))"
proof -
  obtain x row' tick' where tb:
    "try_body E ms n t td bd (get_field td ''Domain'' []) (get_field td ''Prompt'' []) (row0 td)
     = (x, row', tick')"
    by (cases "try_body E ms n t td bd (get_field td ''Domain'' []) (get_field td ''Prompt'' []) (row0 td)")
  with assms have "x = Some e" by simp
  with tb show ?thesis by (simp add: process_task_def Let_def row0_def [symmetric])
qed

lemma task_inputs_rubric:
  "task_inputs E td bd dm pr = Inr (atts, rj, fp) \<Longrightarrow>
   \<exists>t. get_field td ''Rubric JSON'' [] = Some t \<and> rj = strip t"
  by (auto simp: task_inputs_def Let_def split: option.splits sum.splits)

lemma process_task_task_id:
  "fst (process_task E ms n t td bd) ''task_id'' = Some (cell_of (get_field td ''Task ID'' ''unknown''))"
proof (cases "task_inputs E td bd (get_field td ''Domain'' []) (get_field td ''Prompt'' [])")
  case (Inl e)
  then show ?thesis by (simp add: process_task_def try_body_def Let_def)
next
  case (Inr x)
  then obtain atts rj fp where x: "x = (atts, rj, fp)" by (cases x)
  have "fst (snd (process_pairs E rj fp atts (all_pairs ms n) t (row0 td))) ''task_id''
        = row0 td ''task_id''"
    by (rule process_pairs_other) (use fixed_not_pair_key in auto)
  moreover have "fst (process_task E ms n t td bd) ''task_id''
        = fst (snd (process_pairs E rj fp atts (all_pairs ms n) t (row0 td))) ''task_id''"
    using Inr x by (intro process_task_row) simp_all
  ultimately show ?thesis by (simp add: row0_def)
qed

lemma process_task_response:
  assumes "task_inputs E td bd (get_field td ''Domain'' []) (get_field td ''Prompt'' []) = Inr (atts, rj, fp)"
    and "distinct (prefixes (all_pairs ms n))"
    and "j < length (all_pairs ms n)"
    and "reached E rj fp atts t0 (all_pairs ms n) j"
  shows "case all_pairs ms n ! j of (m', r') \<Rightarrow>
           fst (process_task E ms n t0 td bd) (prefix_of (model_id m') r' @ ''_response'')
           = Some (cell_of (response (run_generation E (t0 + j) fp m' atts)))"
proof -
  obtain m' r' where mr: "all_pairs ms n ! j = (m', r')" by (cases "all_pairs ms n ! j")
  have "prefix_of (model_id m') r' @ ''_response'' \<in> pair_keys (prefix_of (model_id m') r')"
    by (simp add: pair_keys_def)
  from process_task_pair_key [OF assms(1,2,3) mr assms(4) this]
  show ?thesis by (simp add: mr pair_response)
qed

lemma reached_mono: "reached E rj fp atts t0 ps i \<Longrightarrow> j \<le> i \<Longrightarrow> reached E rj fp atts t0 ps j"
  by (simp add: reached_iff)

lemma reached_Suc:
  "reached E rj fp atts t0 ps (Suc i) \<longleftrightarrow>
   reached E rj fp atts t0 ps i \<and> \<not> pair_raises E rj fp atts (t0 + i) (fst (ps ! i))"
  by (auto simp: reached_iff less_Suc_eq)

lemma example_pairs:
  "distinct (prefixes (all_pairs MODELS NUMBER_OF_RUNS))"
  "length (all_pairs MODELS NUMBER_OF_RUNS) = 2"
  "all_pairs MODELS NUMBER_OF_RUNS ! 0 = (MODELS ! 0, 1)"
  "all_pairs MODELS NUMBER_OF_RUNS ! 1 = (MODELS ! 1, 1)"
  "prefix_of (model_id (MODELS ! 0)) 1 = ''claude_opus_4_5_20251101_1''"
  "prefix_of (model_id (MODELS ! 1)) 1 = ''gemini_3_pro_preview_1''"
  by code_simp+

text \<open>
  A failed generation whose error is a text: for a task whose inputs could be read, a
  configuration whose pairs have distinct column prefixes and a pair that the loops
  reach, the row has the score 0 for the pair and the summary \<open>Generation failed: \<close>
  followed by the first 100 characters of the error, and the loops go on to the next pair.
\<close>

lemma generation_failure_recorded:
  assumes "task_inputs E td bd (get_field td ''Domain'' []) (get_field td ''Prompt'' []) = Inr (atts, rj, fp)"
    and "distinct (prefixes (all_pairs ms n))"
    and "i < length (all_pairs ms n)" and "all_pairs ms n ! i = (m, r)"
    and "reached E rj fp atts t0 (all_pairs ms n) i"
    and "\<not> success (run_generation E (t0 + i) fp m atts)"
    and "error (run_generation E (t0 + i) fp m atts) = Val e"
  shows "fst (process_task E ms n t0 td bd) (prefix_of (model_id m) r @ ''_score'') = Some (CInt 0) \<and>
         fst (process_task E ms n t0 td bd) (prefix_of (model_id m) r @ ''_score_summary'')
           = Some (CStr (''Generation failed: '' @ take 100 e)) \<and>
         reached E rj fp atts t0 (all_pairs ms n) (Suc i)"
proof (intro conjI)
  have k1: "prefix_of (model_id m) r @ ''_score'' \<in> pair_keys (prefix_of (model_id m) r)"
    and k2: "prefix_of (model_id m) r @ ''_score_summary'' \<in> pair_keys (prefix_of (model_id m) r)"
    by (simp_all add: pair_keys_def)
  show "fst (process_task E ms n t0 td bd) (prefix_of (model_id m) r @ ''_score'') = Some (CInt 0)"
    using process_task_pair_key [OF assms(1-5) k1] pair_gen_failed(1) [OF assms(6)] by simp
  show "fst (process_task E ms n t0 td bd) (prefix_of (model_id m) r @ ''_score_summary'')
           = Some (CStr (''Generation failed: '' @ take 100 e))"
    using process_task_pair_key [OF assms(1-5) k2] pair_gen_failed(2) [OF assms(6,7)] by simp
  have "\<not> pair_raises E rj fp atts (t0 + i) m"
    using assms(6,7) by (simp add: pair_raises_def Let_def)
  then show "reached E rj fp atts t0 (all_pairs ms n) (Suc i)"
    using assms(4,5) by (simp add: reached_Suc)
qed

text \<open>
  C2 fails on the code when the generation collaborator reports a failure with the error
  message \<^verbatim>\<open>None\<close>. With the models of the source, for the task \<open>T1\<close> and a
  collaborator that answers the first attempt with
  \<^verbatim>\<open>[{"success": False, "error_message": None}]\<close>: the generation of the first pair
  fails, the row has the empty response and the score 0 for it and no score summary, the
  second pair is not attempted (the attempt counter stops at 1 and the row has no response
  for it), and the status of the task is \<open>error: 'NoneType' object is not subscriptable\<close>.
\<close>

theorem generation_error_none_aborts_task:
  "run_generation_task_async (example_env silent_generation pass_grading) 0
     \<lparr>gt_prompt = ''Domain: Law Task: p'',
      gt_models = [\<lparr>mc_model_id = model_id (MODELS ! 0), mc_max_tokens = max_tokens (MODELS ! 0),
                    mc_temperature = temperature (MODELS ! 0),
                    mc_model_configs = model_configs (MODELS ! 0), mc_number_of_runs = 1\<rparr>],
      gt_attachments = None\<rparr>
     = GenReturned [\<lparr>res_success = Some False, res_response = Missing, res_error_message = Null\<rparr>] \<and>
   \<not> success (run_generation (example_env silent_generation pass_grading) 0 ''Domain: Law Task: p''
        (MODELS ! 0) []) \<and>
   error (run_generation (example_env silent_generation pass_grading) 0 ''Domain: Law Task: p''
        (MODELS ! 0) []) = Null \<and>
   fst (process_task (example_env silent_generation pass_grading) MODELS NUMBER_OF_RUNS 0 task_T1 ''dir'')
     ''claude_opus_4_5_20251101_1_response'' = Some (CStr []) \<and>
   fst (process_task (example_env silent_generation pass_grading) MODELS NUMBER_OF_RUNS 0 task_T1 ''dir'')
     ''claude_opus_4_5_20251101_1_score'' = Some (CInt 0) \<and>
   fst (process_task (example_env silent_generation pass_grading) MODELS NUMBER_OF_RUNS 0 task_T1 ''dir'')
     ''claude_opus_4_5_20251101_1_score_summary'' = None \<and>
   fst (process_task (example_env silent_generation pass_grading) MODELS NUMBER_OF_RUNS 0 task_T1 ''dir'')
     ''gemini_3_pro_preview_1_response'' = None \<and>
   snd (process_task (example_env silent_generation pass_grading) MODELS NUMBER_OF_RUNS 0 task_T1 ''dir'') = 1 \<and>
   fst (process_task (example_env silent_generation pass_grading) MODELS NUMBER_OF_RUNS 0 task_T1 ''dir'')
     ''status'' = Some (CStr (''error: '' @ [CHR 0x27] @ ''NoneType'' @ [CHR 0x27] @
                               '' object is not subscriptable''))"
  by code_simp

text \<open>
  C3. For a task whose inputs could be read, a configuration whose pairs have distinct
  column prefixes and a pair that the loops reach: when the generation of the pair
  succeeds, the rubric text and the response are not empty and the grading raises, the row
  has neither a score nor a score summary for that pair, it has the response, and the
  loops go on: the next pair, if there is one, is attempted and has its response in the
  row. When no pair of the task raises outside the inner \<^verbatim>\<open>try\<close>, every pair was attempted,
  each with its own response in the row, and the status of the task is \<open>completed\<close>.
\<close>

theorem grading_error_leaves_no_score:
  assumes "task_inputs E td bd (get_field td ''Domain'' []) (get_field td ''Prompt'' []) = Inr (atts, rj, fp)"
    and "distinct (prefixes (all_pairs ms n))"
    and "i < length (all_pairs ms n)" and "all_pairs ms n ! i = (m, r)"
    and "reached E rj fp atts t0 (all_pairs ms n) i"
    and "success (run_generation E (t0 + i) fp m atts)"
    and "rj \<noteq> []" and "response (run_generation E (t0 + i) fp m atts) = Some resp" and "resp \<noteq> []"
    and "run_grading E (t0 + i) resp rj = Inl e"
  shows "fst (process_task E ms n t0 td bd) (prefix_of (model_id m) r @ ''_score'') = None \<and>
         fst (process_task E ms n t0 td bd) (prefix_of (model_id m) r @ ''_score_summary'') = None \<and>
         fst (process_task E ms n t0 td bd) (prefix_of (model_id m) r @ ''_response'')
           = Some (CStr resp) \<and>
         reached E rj fp atts t0 (all_pairs ms n) (Suc i) \<and>
         (Suc i < length (all_pairs ms n) \<longrightarrow>
            (case all_pairs ms n ! Suc i of (m', r') \<Rightarrow>
               fst (process_task E ms n t0 td bd) (prefix_of (model_id m') r' @ ''_response'')
               = Some (cell_of (response (run_generation E (t0 + Suc i) fp m' atts))))) \<and>
         (reached E rj fp atts t0 (all_pairs ms n) (length (all_pairs ms n)) \<longrightarrow>
            fst (process_task E ms n t0 td bd) ''status'' = Some (CStr ''completed'') \<and>
            snd (process_task E ms n t0 td bd) = t0 + length (all_pairs ms n) \<and>
            (\<forall>j < length (all_pairs ms n). case all_pairs ms n ! j of (m', r') \<Rightarrow>
               fst (process_task E ms n t0 td bd) (prefix_of (model_id m') r' @ ''_response'')
               = Some (cell_of (response (run_generation E (t0 + j) fp m' atts)))))"
proof (intro conjI allI impI)
  have k0: "prefix_of (model_id m) r @ ''_response'' \<in> pair_keys (prefix_of (model_id m) r)"
    and k1: "prefix_of (model_id m) r @ ''_score'' \<in> pair_keys (prefix_of (model_id m) r)"
    and k2: "prefix_of (model_id m) r @ ''_score_summary'' \<in> pair_keys (prefix_of (model_id m) r)"
    by (simp_all add: pair_keys_def)
  show "fst (process_task E ms n t0 td bd) (prefix_of (model_id m) r @ ''_score'') = None"
    using process_task_pair_key [OF assms(1-5) k1] pair_grading_raised(1) [OF assms(6-10)] by simp
  show "fst (process_task E ms n t0 td bd) (prefix_of (model_id m) r @ ''_score_summary'') = None"
    using process_task_pair_key [OF assms(1-5) k2] pair_grading_raised(2) [OF assms(6-10)] by simp
  show "fst (process_task E ms n t0 td bd) (prefix_of (model_id m) r @ ''_response'')
           = Some (CStr resp)"
    using process_task_pair_key [OF assms(1-5) k0] assms(8) by (simp add: pair_response cell_of_def)
  show next_reached: "reached E rj fp atts t0 (all_pairs ms n) (Suc i)"
    using assms(4,5) pair_grading_raised(3) [OF assms(6-10)] by (simp add: reached_Suc)
  show "case all_pairs ms n ! Suc i of (m', r') \<Rightarrow>
               fst (process_task E ms n t0 td bd) (prefix_of (model_id m') r' @ ''_response'')
               = Some (cell_of (response (run_generation E (t0 + Suc i) fp m' atts)))"
    if "Suc i < length (all_pairs ms n)"
    using assms(1,2) that next_reached by (rule process_task_response)
next
  assume all: "reached E rj fp atts t0 (all_pairs ms n) (length (all_pairs ms n))"
  show "fst (process_task E ms n t0 td bd) ''status'' = Some (CStr ''completed'')"
    using assms(1) all by (rule process_task_completed(1))
  show "snd (process_task E ms n t0 td bd) = t0 + length (all_pairs ms n)"
    using assms(1) all by (rule process_task_completed(2))
  fix j assume j: "j < length (all_pairs ms n)"
  with all have "reached E rj fp atts t0 (all_pairs ms n) j" by (simp add: reached_mono)
  with assms(1,2) j show "case all_pairs ms n ! j of (m', r') \<Rightarrow>
            fst (process_task E ms n t0 td bd) (prefix_of (model_id m') r' @ ''_response'')
            = Some (cell_of (response (run_generation E (t0 + j) fp m' atts)))"
    by (rule process_task_response)
qed

theorem grading_error_leaves_no_score_witness:
  "run_grading (example_env steady_generation pass_grading) 0 ''ans'' ''not json'' = Inl RubricParseError \<and>
   fst (process_task (example_env steady_generation pass_grading) MODELS NUMBER_OF_RUNS 0 task_T4 ''dir'')
     ''claude_opus_4_5_20251101_1_score'' = None \<and>
   fst (process_task (example_env steady_generation pass_grading) MODELS NUMBER_OF_RUNS 0 task_T4 ''dir'')
     ''claude_opus_4_5_20251101_1_score_summary'' = None \<and>
   fst (process_task (example_env steady_generation pass_grading) MODELS NUMBER_OF_RUNS 0 task_T4 ''dir'')
     ''claude_opus_4_5_20251101_1_response'' = Some (CStr ''ans'') \<and>
   fst (process_task (example_env steady_generation pass_grading) MODELS NUMBER_OF_RUNS 0 task_T4 ''dir'')
     ''gemini_3_pro_preview_1_response'' = Some (CStr ''ans'') \<and>
   fst (process_task (example_env steady_generation pass_grading) MODELS NUMBER_OF_RUNS 0 task_T4 ''dir'')
     ''status'' = Some (CStr ''completed'') \<and>
   snd (process_task (example_env steady_generation pass_grading) MODELS NUMBER_OF_RUNS 0 task_T4 ''dir'') = 2"
proof -
  let ?E = "example_env steady_generation pass_grading"
  let ?row = "fst (process_task ?E MODELS NUMBER_OF_RUNS 0 task_T4 ''dir'')"
  have inp: "task_inputs ?E task_T4 ''dir'' (get_field task_T4 ''Domain'' []) (get_field task_T4 ''Prompt'' [])
             = Inr ([], ''not json'', ''Domain: Law Task: p'')" by code_simp
  have s0: "success (run_generation ?E 0 ''Domain: Law Task: p'' (MODELS ! 0) [])" by code_simp
  have r0: "response (run_generation ?E 0 ''Domain: Law Task: p'' (MODELS ! 0) []) = Some ''ans''"
    by code_simp
  have r1: "cell_of (response (run_generation ?E (0 + Suc 0) ''Domain: Law Task: p'' (MODELS ! Suc 0) []))
            = CStr ''ans''"
    by code_simp
  have p1: "all_pairs MODELS NUMBER_OF_RUNS ! Suc 0 = (MODELS ! Suc 0, 1)"
    and q1: "prefix_of (model_id (MODELS ! Suc 0)) 1 = ''gemini_3_pro_preview_1''"
    by code_simp+
  have g0: "run_grading ?E 0 ''ans'' ''not json'' = Inl RubricParseError" by code_simp
  have z: "(0::nat) + 0 = 0" by simp
  have s: "success (run_generation ?E (0 + 0) ''Domain: Law Task: p'' (MODELS ! 0) [])"
    unfolding z by (rule s0)
  have rj: "''not json'' \<noteq> []" by simp
  have rs: "response (run_generation ?E (0 + 0) ''Domain: Law Task: p'' (MODELS ! 0) []) = Some ''ans''"
    unfolding z by (rule r0)
  have rn: "''ans'' \<noteq> []" by simp
  have g: "run_grading ?E (0 + 0) ''ans'' ''not json'' = Inl RubricParseError"
    unfolding z by (rule g0)
  have i0: "0 < length (all_pairs MODELS NUMBER_OF_RUNS)"
    and i1: "Suc 0 < length (all_pairs MODELS NUMBER_OF_RUNS)"
    unfolding example_pairs(2) by simp_all
  have re0: "reached ?E ''not json'' ''Domain: Law Task: p'' [] 0 (all_pairs MODELS NUMBER_OF_RUNS) 0"
    by (simp add: reached_def)
  have re: "reached ?E ''not json'' ''Domain: Law Task: p'' [] 0 (all_pairs MODELS NUMBER_OF_RUNS)
              (length (all_pairs MODELS NUMBER_OF_RUNS))"
    by code_simp
  note th = grading_error_leaves_no_score [OF inp example_pairs(1) i0 example_pairs(3) re0 s rj rs rn g]
  note a = th [THEN conjunct1]
  note b = th [THEN conjunct2, THEN conjunct1]
  note c = th [THEN conjunct2, THEN conjunct2, THEN conjunct1]
  note nx = th [THEN conjunct2, THEN conjunct2, THEN conjunct2, THEN conjunct2, THEN conjunct1,
                rule_format, OF i1]
  note fin = th [THEN conjunct2, THEN conjunct2, THEN conjunct2, THEN conjunct2, THEN conjunct2,
                 rule_format, OF re]
  note d = fin [THEN conjunct1]
  note e = fin [THEN conjunct2, THEN conjunct1]
  have a': "?row ''claude_opus_4_5_20251101_1_score'' = None"
    using a unfolding example_pairs(5) by simp
  have b': "?row ''claude_opus_4_5_20251101_1_score_summary'' = None"
    using b unfolding example_pairs(5) by simp
  have c': "?row ''claude_opus_4_5_20251101_1_response'' = Some (CStr ''ans'')"
    using c unfolding example_pairs(5) by simp
  have nx': "?row ''gemini_3_pro_preview_1_response'' = Some (CStr ''ans'')"
    using nx unfolding p1 prod.case q1 r1 by simp
  have e': "snd (process_task ?E MODELS NUMBER_OF_RUNS 0 task_T4 ''dir'') = 2"
    using e unfolding example_pairs(2) by simp
  from g0 a' b' c' nx' d e' show ?thesis by (intro conjI)
qed

text \<open>
  C8 (as amended). Under the same conditions: when the generation of a pair that the loops
  reach succeeds and the rubric text of the task, stripped, is empty or the response is
  empty or \<^verbatim>\<open>None\<close>, the row has the score 0 for that pair and the summary
  \<open>No rubric or empty response\<close>.
\<close>

theorem no_rubric_or_empty_response:
  assumes "task_inputs E td bd (get_field td ''Domain'' []) (get_field td ''Prompt'' []) = Inr (atts, rj, fp)"
    and "distinct (prefixes (all_pairs ms n))"
    and "i < length (all_pairs ms n)" and "all_pairs ms n ! i = (m, r)"
    and "reached E rj fp atts t0 (all_pairs ms n) i"
    and "success (run_generation E (t0 + i) fp m atts)"
    and "rj = [] \<or> response (run_generation E (t0 + i) fp m atts) = Some [] \<or>
         response (run_generation E (t0 + i) fp m atts) = None"
  shows "fst (process_task E ms n t0 td bd) (prefix_of (model_id m) r @ ''_score'') = Some (CInt 0) \<and>
         fst (process_task E ms n t0 td bd) (prefix_of (model_id m) r @ ''_score_summary'')
           = Some (CStr ''No rubric or empty response'') \<and>
         (\<exists>t. get_field td ''Rubric JSON'' [] = Some t \<and> rj = strip t)"
proof (intro conjI)
  have k1: "prefix_of (model_id m) r @ ''_score'' \<in> pair_keys (prefix_of (model_id m) r)"
    and k2: "prefix_of (model_id m) r @ ''_score_summary'' \<in> pair_keys (prefix_of (model_id m) r)"
    by (simp_all add: pair_keys_def)
  show "fst (process_task E ms n t0 td bd) (prefix_of (model_id m) r @ ''_score'') = Some (CInt 0)"
    using process_task_pair_key [OF assms(1-5) k1] pair_not_graded(1) [OF assms(6,7)] by simp
  show "fst (process_task E ms n t0 td bd) (prefix_of (model_id m) r @ ''_score_summary'')
           = Some (CStr ''No rubric or empty response'')"
    using process_task_pair_key [OF assms(1-5) k2] pair_not_graded(2) [OF assms(6,7)] by simp
  show "\<exists>t. get_field td ''Rubric JSON'' [] = Some t \<and> rj = strip t"
    using assms(1) by (rule task_inputs_rubric)
qed

theorem no_rubric_or_empty_response_witness:
  "get_field task_T2 ''Rubric JSON'' [] = Some [] \<and>
   success (run_generation (example_env steady_generation pass_grading) 0 ''Domain: Law Task: p''
        (MODELS ! 0) []) \<and>
   fst (process_task (example_env steady_generation pass_grading) MODELS NUMBER_OF_RUNS 0 task_T2 ''dir'')
     ''claude_opus_4_5_20251101_1_score'' = Some (CInt 0) \<and>
   fst (process_task (example_env steady_generation pass_grading) MODELS NUMBER_OF_RUNS 0 task_T2 ''dir'')
     ''claude_opus_4_5_20251101_1_score_summary'' = Some (CStr ''No rubric or empty response'')"
proof -
  let ?E = "example_env steady_generation pass_grading"
  let ?row = "fst (process_task ?E MODELS NUMBER_OF_RUNS 0 task_T2 ''dir'')"
  have inp: "task_inputs ?E task_T2 ''dir'' (get_field task_T2 ''Domain'' []) (get_field task_T2 ''Prompt'' [])
             = Inr ([], [], ''Domain: Law Task: p'')" by code_simp
  have s0: "success (run_generation ?E 0 ''Domain: Law Task: p'' (MODELS ! 0) [])" by code_simp
  have q: "get_field task_T2 ''Rubric JSON'' [] = Some []" by code_simp
  have z: "(0::nat) + 0 = 0" by simp
  have s: "success (run_generation ?E (0 + 0) ''Domain: Law Task: p'' (MODELS ! 0) [])"
    unfolding z by (rule s0)
  have c: "[] = ([]::string) \<or>
           response (run_generation ?E (0 + 0) ''Domain: Law Task: p'' (MODELS ! 0) []) = Some [] \<or>
           response (run_generation ?E (0 + 0) ''Domain: Law Task: p'' (MODELS ! 0) []) = None"
    by (rule disjI1) (rule refl)
  have i0: "0 < length (all_pairs MODELS NUMBER_OF_RUNS)"
    unfolding example_pairs(2) by simp
  have re0: "reached ?E [] ''Domain: Law Task: p'' [] 0 (all_pairs MODELS NUMBER_OF_RUNS) 0"
    by (simp add: reached_def)
  note th = no_rubric_or_empty_response [OF inp example_pairs(1) i0 example_pairs(3) re0 s c]
  note a = th [THEN conjunct1]
  note b = th [THEN conjunct2, THEN conjunct1]
  have a': "?row ''claude_opus_4_5_20251101_1_score'' = Some (CInt 0)"
    using a unfolding example_pairs(5) by simp
  have b': "?row ''claude_opus_4_5_20251101_1_score_summary'' = Some (CStr ''No rubric or empty response'')"
    using b unfolding example_pairs(5) by simp
  from q s0 a' b' show ?thesis by (intro conjI)
qed

text \<open>
  C8 as stated fails: a response of one space is blank, and with a rubric it is graded
  like any other response.
\<close>

theorem blank_response_is_graded:
  "response (run_generation (example_env blank_generation pass_grading) 0 ''Domain: Law Task: p''
        (MODELS ! 0) []) = Some '' '' \<and>
   strip '' '' = [] \<and>
   fst (process_task (example_env blank_generation pass_grading) MODELS NUMBER_OF_RUNS 0 task_T1 ''dir'')
     ''claude_opus_4_5_20251101_1_response'' = Some (CStr '' '') \<and>
   fst (process_task (example_env blank_generation pass_grading) MODELS NUMBER_OF_RUNS 0 task_T1 ''dir'')
     ''claude_opus_4_5_20251101_1_score'' = Some (CFloat 100) \<and>
   fst (process_task (example_env blank_generation pass_grading) MODELS NUMBER_OF_RUNS 0 task_T1 ''dir'')
     ''claude_opus_4_5_20251101_1_score_summary''
     = Some (CStr ''{\"c1\": {\"description\": \"x\", \"autorating\": true, \"reason\": \"ok\"}}'')"
  by code_simp

lemma main_loop_fresh:
  "length (main_loop E ms n False ex bd hs tasks t) = length tasks \<and>
   (\<forall>i < length tasks. \<exists>t'. main_loop E ms n False ex bd hs tasks t ! i
        = write_row hs (fst (process_task E ms n t' (tasks ! i) bd)))"
proof (induction tasks arbitrary: t)
  case Nil
  then show ?case by simp
next
  case (Cons td tasks)
  obtain row t1 where pt: "process_task E ms n t td bd = (row, t1)"
    by (cases "process_task E ms n t td bd")
  have eq: "main_loop E ms n False ex bd hs (td # tasks) t
            = write_row hs row # main_loop E ms n False ex bd hs tasks t1"
    by (simp add: pt)
  show ?case
  proof (intro conjI allI impI)
    show "length (main_loop E ms n False ex bd hs (td # tasks) t) = length (td # tasks)"
      using Cons.IH [of t1] by (simp only: eq) simp
  next
    fix i assume i: "i < length (td # tasks)"
    show "\<exists>t'. main_loop E ms n False ex bd hs (td # tasks) t ! i
        = write_row hs (fst (process_task E ms n t' ((td # tasks) ! i) bd))"
    proof (cases i)
      case 0
      have "main_loop E ms n False ex bd hs (td # tasks) t ! 0
            = write_row hs (fst (process_task E ms n t td bd))"
        by (simp only: eq) (simp add: pt)
      with 0 show ?thesis by auto
    next
      case (Suc j)
      with i have "j < length tasks" by simp
      with Cons.IH [of t1] obtain t' where
        "main_loop E ms n False ex bd hs tasks t1 ! j = write_row hs (fst (process_task E ms n t' (tasks ! j) bd))"
        by blast
      with Suc show ?thesis by (simp only: eq) auto
    qed
  qed
qed

lemma write_row_columns:
  "write_row (get_csv_headers ms n) row ! 0 = (case row ''task_id'' of None \<Rightarrow> CStr [] | Some c \<Rightarrow> c)"
  "write_row (get_csv_headers ms n) row ! 2 = (case row ''status'' of None \<Rightarrow> CStr [] | Some c \<Rightarrow> c)"
  by (simp_all add: write_row_def get_csv_headers_def)

text \<open>
  C1. A run that does not resume appends one row for each task it was given, in order:
  the row of that task, with its identifier in the first column. When an exception leaves
  the body of the \<^verbatim>\<open>try\<close> of that task, the status column of the row is \<open>error: \<close> followed
  by the first 100 characters of the message.
\<close>

theorem one_row_per_task:
  assumes "\<not> resume a" and "main E ms n a out (Some all_tasks) = Some res"
  shows "length (appended res) = length (select_tasks a all_tasks) \<and>
         (\<forall>i < length (select_tasks a all_tasks). \<exists>t.
            appended res ! i
              = write_row (get_csv_headers ms n)
                  (fst (process_task E ms n t (select_tasks a all_tasks ! i) (input_dir a))) \<and>
            appended res ! i ! 0 = cell_of (get_field (select_tasks a all_tasks ! i) ''Task ID'' ''unknown'') \<and>
            (\<forall>e. fst (try_body E ms n t (select_tasks a all_tasks ! i) (input_dir a)
                        (get_field (select_tasks a all_tasks ! i) ''Domain'' [])
                        (get_field (select_tasks a all_tasks ! i) ''Prompt'' [])
                        (row0 (select_tasks a all_tasks ! i))) = Some e \<longrightarrow>
                 appended res ! i ! 2 = CStr (''error: '' @ take 100 (exn_str e))))"
proof -
  let ?tasks = "select_tasks a all_tasks"
  let ?hs = "get_csv_headers ms n"
  have app: "appended res = main_loop E ms n False Map.empty (input_dir a) ?hs ?tasks 0"
    using assms by (auto simp: main_def Let_def)
  note ml = main_loop_fresh [of E ms n Map.empty "input_dir a" ?hs ?tasks 0]
  show ?thesis
  proof (intro conjI allI impI)
    show "length (appended res) = length ?tasks" using ml by (simp add: app)
  next
    fix i assume "i < length ?tasks"
    with ml obtain t where t: "appended res ! i
        = write_row ?hs (fst (process_task E ms n t (?tasks ! i) (input_dir a)))"
      unfolding app by blast
    have c0: "appended res ! i ! 0 = cell_of (get_field (?tasks ! i) ''Task ID'' ''unknown'')"
      by (simp add: t write_row_columns process_task_task_id)
    have c2: "appended res ! i ! 2 = CStr (''error: '' @ take 100 (exn_str e))"
      if "fst (try_body E ms n t (?tasks ! i) (input_dir a)
                        (get_field (?tasks ! i) ''Domain'' [])
                        (get_field (?tasks ! i) ''Prompt'' [])
                        (row0 (?tasks ! i))) = Some e" for e
    proof -
      from that have "fst (process_task E ms n t (?tasks ! i) (input_dir a)) ''status''
          = Some (CStr (''error: '' @ take 100 (exn_str e)))"
        by (rule process_task_status_raised)
      then show ?thesis by (simp add: t write_row_columns)
    qed
    from t c0 c2 show "\<exists>t. appended res ! i
              = write_row ?hs (fst (process_task E ms n t (?tasks ! i) (input_dir a))) \<and>
            appended res ! i ! 0 = cell_of (get_field (?tasks ! i) ''Task ID'' ''unknown'') \<and>
            (\<forall>e. fst (try_body E ms n t (?tasks ! i) (input_dir a)
                        (get_field (?tasks ! i) ''Domain'' [])
                        (get_field (?tasks ! i) ''Prompt'' [])
                        (row0 (?tasks ! i))) = Some e \<longrightarrow>
                 appended res ! i ! 2 = CStr (''error: '' @ take 100 (exn_str e)))"
      by blast
  qed
qed

theorem one_row_per_task_witness:
  "\<exists>res. main (example_env steady_generation pass_grading) MODELS NUMBER_OF_RUNS fresh_args Absent
       (Some [task_T1, task_T5]) = Some res \<and>
     length (appended res) = 2 \<and>
     appended res ! 1 ! 0 = CStr ''T5'' \<and>
     appended res ! 1 ! 2 = CStr (''error: '' @ exn_str none_strip)"
proof -
  let ?E = "example_env steady_generation pass_grading"
  define res where "res = \<lparr>header_written = True,
      appended = main_loop ?E MODELS NUMBER_OF_RUNS False Map.empty ''dir''
                   (get_csv_headers MODELS NUMBER_OF_RUNS) [task_T1, task_T5] 0\<rparr>"
  have sel: "select_tasks fresh_args [task_T1, task_T5] = [task_T1, task_T5]"
    by (simp add: select_tasks_def fresh_args_def py_slice_def slice_index_def)
  have nr: "\<not> resume fresh_args" and dir: "input_dir fresh_args = ''dir''"
    by (simp_all add: fresh_args_def)
  have m: "main ?E MODELS NUMBER_OF_RUNS fresh_args Absent (Some [task_T1, task_T5]) = Some res"
    unfolding main_def Let_def option.case sel res_def using nr dir by simp
  have id5: "cell_of (get_field task_T5 ''Task ID'' ''unknown'') = CStr ''T5''" by code_simp
  have inp: "task_inputs ?E task_T5 ''dir'' (get_field task_T5 ''Domain'' [])
                 (get_field task_T5 ''Prompt'' []) = Inl none_strip"
    by code_simp
  have len: "take 100 (exn_str none_strip) = exn_str none_strip" by code_simp
  note th = one_row_per_task [OF nr m]
  have l: "length (appended res) = 2"
    using th [THEN conjunct1] unfolding sel by simp
  have i1: "1 < length (select_tasks fresh_args [task_T1, task_T5])"
    unfolding sel by simp
  from th [THEN conjunct2, rule_format, OF i1]
  obtain t where c0: "appended res ! 1 ! 0
        = cell_of (get_field (select_tasks fresh_args [task_T1, task_T5] ! 1) ''Task ID'' ''unknown'')"
    and c2: "\<forall>e. fst (try_body ?E MODELS NUMBER_OF_RUNS t
                  (select_tasks fresh_args [task_T1, task_T5] ! 1) (input_dir fresh_args)
                  (get_field (select_tasks fresh_args [task_T1, task_T5] ! 1) ''Domain'' [])
                  (get_field (select_tasks fresh_args [task_T1, task_T5] ! 1) ''Prompt'' [])
                  (row0 (select_tasks fresh_args [task_T1, task_T5] ! 1))) = Some e \<longrightarrow>
               appended res ! 1 ! 2 = CStr (''error: '' @ take 100 (exn_str e))"
    by blast
  have nth1: "select_tasks fresh_args [task_T1, task_T5] ! 1 = task_T5"
    unfolding sel by simp
  have raise: "fst (try_body ?E MODELS NUMBER_OF_RUNS t task_T5 ''dir'' (get_field task_T5 ''Domain'' [])
                 (get_field task_T5 ''Prompt'' []) (row0 task_T5)) = Some none_strip"
    using inp by (rule try_body_inputs_raise)
  have c0': "appended res ! 1 ! 0 = CStr ''T5''"
    using c0 unfolding nth1 id5 .
  have c2': "appended res ! 1 ! 2 = CStr (''error: '' @ exn_str none_strip)"
    using c2 [unfolded nth1 dir, rule_format, OF raise] unfolding len .
  from m l c0' c2' show ?thesis by blast
qed

lemma load_dom_aux:
  "dom (foldl (\<lambda>d r. case r ''task_id'' of
                          Some (Some t) \<Rightarrow> if t \<noteq> [] then d(t \<mapsto> r) else d
                        | _ \<Rightarrow> d) d0 rows)
   = dom d0 \<union> {t. t \<noteq> [] \<and> (\<exists>r \<in> set rows. r ''task_id'' = Some (Some t))}"
  by (induction rows arbitrary: d0) (auto split: option.splits)

lemma load_dom:
  "dom (load_existing_results (Stored rows))
   = {t. t \<noteq> [] \<and> (\<exists>r \<in> set rows. r ''task_id'' = Some (Some t))}"
  by (simp add: load_existing_results_def load_dom_aux)

lemma in_existing_recorded:
  "in_existing (get_field td ''Task ID'' ''unknown'') (load_existing_results (Stored rows))
   = recorded_in_store rows td"
proof (cases "get_field td ''Task ID'' ''unknown''")
  case None
  then show ?thesis by (simp add: in_existing_def recorded_in_store_def)
next
  case (Some t)
  have "(load_existing_results (Stored rows) t \<noteq> None) = (t \<in> dom (load_existing_results (Stored rows)))"
    by auto
  then show ?thesis
    using Some by (simp add: in_existing_def recorded_in_store_def load_dom)
qed

lemma main_loop_resume:
  "main_loop E ms n True (load_existing_results (Stored rows)) bd hs tasks t
   = main_loop E ms n False ex bd hs (filter (\<lambda>td. \<not> recorded_in_store rows td) tasks) t"
  by (induction tasks arbitrary: t) (simp_all add: in_existing_recorded Let_def split: prod.splits)

text \<open>
  C10. A run that resumes over an output file that could be read appends what a fresh
  loop appends for the tasks whose identifier is not the non-empty \<open>task_id\<close> of a row of
  the file: a task with such a row is skipped, whatever the status of the row.
\<close>

theorem resume_skips_recorded:
  assumes "resume a" and "main E ms n a (Stored rows) (Some all_tasks) = Some res"
  shows "appended res
         = main_loop E ms n False Map.empty (input_dir a) (get_csv_headers ms n)
             (filter (\<lambda>td. \<not> recorded_in_store rows td) (select_tasks a all_tasks)) 0 \<and>
         length (appended res)
         = length (filter (\<lambda>td. \<not> recorded_in_store rows td) (select_tasks a all_tasks)) \<and>
         \<not> header_written res"
proof -
  have app: "appended res
         = main_loop E ms n False Map.empty (input_dir a) (get_csv_headers ms n)
             (filter (\<lambda>td. \<not> recorded_in_store rows td) (select_tasks a all_tasks)) 0"
    using assms by (auto simp: main_def Let_def main_loop_resume [where ex = Map.empty])
  moreover have "\<not> header_written res" using assms by (auto simp: main_def Let_def)
  ultimately show ?thesis using main_loop_fresh by simp
qed

theorem resume_skips_recorded_witness:
  "recorded_in_store [failed_row] task_T1 \<and> failed_row ''status'' = Some (Some ''error: boom'') \<and>
   \<not> recorded_in_store [failed_row] task_T2 \<and>
   (\<exists>res. main (example_env steady_generation pass_grading) MODELS NUMBER_OF_RUNS resume_args
       (Stored [failed_row]) (Some [task_T1, task_T2]) = Some res \<and>
     length (appended res) = 1 \<and>
     appended res = main_loop (example_env steady_generation pass_grading) MODELS NUMBER_OF_RUNS False
                      Map.empty ''dir'' (get_csv_headers MODELS NUMBER_OF_RUNS) [task_T2] 0)"
proof -
  let ?E = "example_env steady_generation pass_grading"
  define res where "res = \<lparr>header_written = False,
      appended = main_loop ?E MODELS NUMBER_OF_RUNS True (load_existing_results (Stored [failed_row])) ''dir''
                   (get_csv_headers MODELS NUMBER_OF_RUNS) [task_T1, task_T2] 0\<rparr>"
  have sel: "select_tasks resume_args [task_T1, task_T2] = [task_T1, task_T2]"
    by (simp add: select_tasks_def resume_args_def py_slice_def slice_index_def)
  have r: "resume resume_args" and dir: "input_dir resume_args = ''dir''"
    by (simp_all add: resume_args_def)
  have m: "main ?E MODELS NUMBER_OF_RUNS resume_args (Stored [failed_row]) (Some [task_T1, task_T2]) = Some res"
    unfolding main_def Let_def option.case sel res_def using r dir by simp
  have r1: "recorded_in_store [failed_row] task_T1" by code_simp
  have r2: "\<not> recorded_in_store [failed_row] task_T2" by code_simp
  have st: "failed_row ''status'' = Some (Some ''error: boom'')" by code_simp
  have flt: "filter (\<lambda>td. \<not> recorded_in_store [failed_row] td) [task_T1, task_T2] = [task_T2]"
    using r1 r2 by simp
  note th = resume_skips_recorded [OF r m]
  have a: "appended res = main_loop ?E MODELS NUMBER_OF_RUNS False Map.empty ''dir''
             (get_csv_headers MODELS NUMBER_OF_RUNS) [task_T2] 0"
    using th [THEN conjunct1] unfolding sel flt dir .
  have l: "length (appended res) = 1"
    using th [THEN conjunct2, THEN conjunct1] unfolding sel flt by simp
  from r1 st r2 m l a show ?thesis by blast
qed

section \<open>The round trip of the rubric\<close>

text \<open>
  The writer is read back by the reader: first strings and numbers, then values. The
  equations of \<open>show_nat\<close> are unfolded by hand.
\<close>

declare show_nat.simps [simp del]

subsection \<open>Strings are read back\<close>







subsection \<open>Integers are read back\<close>















subsection \<open>Values are read back\<close>

lemma quote_start: "quote s = CHR 0x22 # concat (map escape_char s) @ [CHR 0x22]"
  by (simp add: quote_def)























lemma value_start_append: "value_start x \<Longrightarrow> value_start (x @ t)"
  by (simp add: value_start_def)













subsection \<open>What the reader returns has distinct keys\<close>













subsection \<open>The rubric\<close>



end
